theory Spec2Isabelle
  imports Main
begin

section \<open>Data model\<close>

text \<open>
  The orchestrator keeps all of its state in relational tables. Each table is a list of
  rows in insertion order, each row a record whose fields are the columns the code reads
  or writes. Timestamps are milliseconds since the epoch; \<open>NOW()\<close> and \<open>Date.now()\<close>
  are the explicit parameter \<open>now\<close>. JSON columns whose content the code never inspects
  (assets, metadata) are kept as their serialized text. The output of \<open>nanoid()\<close> is an
  explicit parameter as well.
\<close>

type_synonym json = string
type_synonym timestamp = int

datatype task_status = Pending | Running | Waiting | Completed | Failed | Timeout | Cancelled

datatype failure_mode = FailFast | Continue

datatype pipeline_status = PipelineRunning | PipelineCompleted | PipelineFailed

datatype retry_backoff = Fixed | Exponential

datatype service_status = Active | Inactive | Disconnected

datatype error =
    TaskNotFound string
  | TaskRunNotFound string
  | PipelineNotFound string
  | PipelineValidationFailed "string list"

record upstream_ref =
  outputPath :: string
  assets :: json

record attempt_record =
  ar_attempt :: int
  ar_error :: string
  ar_errorCode :: "string option"
  ar_timestamp :: timestamp

text \<open>Table \<open>task_runs\<close>.\<close>

record task_run =
  tr_id :: string
  tr_task_id :: string
  tr_pipeline_run_id :: "string option"
  tr_status :: task_status
  tr_code_version :: int
  tr_code_hash :: string
  tr_attempt :: int
  tr_max_retries :: int
  tr_priority :: int
  tr_input_path :: string
  tr_output_path :: "string option"
  tr_output_size :: "int option"
  tr_assets :: "json option"
  tr_logs_path :: "string option"
  tr_upstream_refs :: "string \<rightharpoonup> upstream_ref"
  tr_previous_attempts :: "attempt_record list"
  tr_idempotency_key :: "string option"
  tr_scheduled_for :: "timestamp option"
  tr_created_at :: timestamp
  tr_started_at :: "timestamp option"
  tr_completed_at :: "timestamp option"
  tr_error :: "string option"
  tr_error_code :: "string option"
  tr_metadata :: json

text \<open>Table \<open>tasks\<close>.\<close>

record task_def =
  t_id :: string
  t_service_id :: string
  t_code_hash :: string
  t_code_version :: int
  t_allowed_next :: "string list"
  t_timeout_seconds :: int
  t_retries :: int
  t_retry_backoff :: retry_backoff
  t_retry_delay_ms :: int
  t_max_retry_delay_ms :: int
  t_heartbeat_interval_ms :: int
  t_concurrency :: int
  t_priority :: int
  t_idempotency_ttl_seconds :: "int option"
  t_description :: "string option"
  t_registered_at :: timestamp
  t_updated_at :: timestamp

text \<open>Tables \<open>services\<close> and \<open>task_code_history\<close>.\<close>

record service =
  s_id :: string
  s_version :: string
  s_base_url :: string
  s_registered_at :: timestamp
  s_last_heartbeat :: "timestamp option"
  s_status :: service_status

record code_history =
  h_task_id :: string
  h_code_version :: int
  h_code_hash :: string
  h_service_version :: string
  h_recorded_at :: timestamp

text \<open>
  Tables \<open>pipelines\<close> and \<open>pipeline_runs\<close>. A structure is the JSON object
  \<open>{taskId: {allowedNext: [...]}}\<close>, kept as the list of its entries.
\<close>

type_synonym pipeline_structure = "(string \<times> string list) list"

record pipeline =
  p_id :: string
  p_name :: string
  p_entry_tasks :: "string list"
  p_structure :: pipeline_structure
  p_version :: string
  p_failure_mode :: failure_mode

record pipeline_run =
  pr_id :: string
  pr_pipeline_id :: string
  pr_pipeline_version :: string
  pr_structure_snapshot :: pipeline_structure
  pr_status :: pipeline_status
  pr_input_path :: string
  pr_failure_mode :: failure_mode
  pr_created_at :: timestamp
  pr_completed_at :: "timestamp option"
  pr_metadata :: json

text \<open>Tables \<open>dlq\<close> and \<open>idempotency_cache\<close>.\<close>

record dlq_row =
  dlq_id :: string
  dlq_task_run_id :: string
  dlq_task_id :: string
  dlq_pipeline_run_id :: "string option"
  dlq_code_version :: int
  dlq_code_hash :: string
  dlq_error :: string
  dlq_attempts :: int
  dlq_input_path :: string
  dlq_upstream_refs :: "string \<rightharpoonup> upstream_ref"
  dlq_previous_attempts :: "attempt_record list"
  dlq_failed_at :: timestamp

record cache_row =
  ic_idempotency_key :: string
  ic_task_id :: string
  ic_task_run_id :: string
  ic_code_version :: int
  ic_output_path :: string
  ic_output_size :: "int option"
  ic_assets :: "json option"
  ic_cached_at :: timestamp
  ic_expires_at :: timestamp

record db =
  services :: "service list"
  tasks :: "task_def list"
  task_code_history :: "code_history list"
  pipelines :: "pipeline list"
  pipeline_runs :: "pipeline_run list"
  task_runs :: "task_run list"
  dlq :: "dlq_row list"
  idempotency_cache :: "cache_row list"

text \<open>
  Single-row reads by key (\<open>oneOrNone ... WHERE id = $1\<close>): the first row with the key,
  keys being unique in each table.
\<close>

definition select_task :: "string \<Rightarrow> db \<Rightarrow> task_def option" where
  "select_task k d = find (\<lambda>t. t_id t = k) (tasks d)"

definition select_task_run :: "string \<Rightarrow> db \<Rightarrow> task_run option" where
  "select_task_run k d = find (\<lambda>r. tr_id r = k) (task_runs d)"

definition select_pipeline :: "string \<Rightarrow> db \<Rightarrow> pipeline option" where
  "select_pipeline k d = find (\<lambda>p. p_id p = k) (pipelines d)"

definition select_pipeline_run :: "string \<Rightarrow> db \<Rightarrow> pipeline_run option" where
  "select_pipeline_run k d = find (\<lambda>p. pr_id p = k) (pipeline_runs d)"

definition select_service :: "string \<Rightarrow> db \<Rightarrow> service option" where
  "select_service k d = find (\<lambda>s. s_id s = k) (services d)"

text \<open>
  JavaScript truthiness of an optional string: \<open>undefined\<close>, \<open>null\<close> and the empty
  string are falsy.
\<close>

definition truthy :: "string option \<Rightarrow> bool" where
  "truthy s = (case s of None \<Rightarrow> False | Some v \<Rightarrow> v \<noteq> [])"

text \<open>The nullish coalescing operator \<open>??\<close>.\<close>

definition nullish :: "'a option \<Rightarrow> 'a \<Rightarrow> 'a" where
  "nullish v dflt = (case v of None \<Rightarrow> dflt | Some x \<Rightarrow> x)"

section \<open>IdempotencyManager\<close>

record cached_result =
  cr_taskRunId :: string
  cr_outputPath :: string
  cr_outputSize :: "int option"
  cr_assets :: "json option"

definition checkIdempotency :: "timestamp \<Rightarrow> string \<Rightarrow> db \<Rightarrow> cached_result option" where
  "checkIdempotency now idempotencyKey d =
     (case find (\<lambda>c. ic_idempotency_key c = idempotencyKey \<and> ic_expires_at c > now)
             (idempotency_cache d) of
        None \<Rightarrow> None
      | Some cached \<Rightarrow>
          Some \<lparr> cr_taskRunId = ic_task_run_id cached,
                 cr_outputPath = ic_output_path cached,
                 cr_outputSize = ic_output_size cached,
                 cr_assets = ic_assets cached \<rparr>)"

section \<open>QueueManager\<close>

record queue_task_options =
  qo_taskId :: string
  qo_input :: json
  qo_priority :: "int option"
  qo_pipelineRunId :: "string option"
  qo_upstreamRefs :: "(string \<rightharpoonup> upstream_ref) option"
  qo_metadata :: "json option"
  qo_idempotencyKey :: "string option"
  qo_scheduledFor :: "timestamp option"

record queued_task =
  qt_runId :: string
  qt_taskId :: string
  qt_status :: task_status
  qt_inputPath :: string

text \<open>The deterministic input path of a run, and the row \<open>enqueue\<close> inserts.\<close>

definition input_path_for :: "string option \<Rightarrow> string \<Rightarrow> string" where
  "input_path_for pipelineRunId runId =
     (if truthy pipelineRunId
      then ''runs/'' @ the pipelineRunId @ ''/tasks/'' @ runId @ ''/input.json''
      else ''standalone/'' @ runId @ ''/input.json'')"

definition new_task_run :: "timestamp \<Rightarrow> string \<Rightarrow> queue_task_options \<Rightarrow> task_def \<Rightarrow> task_run" where
  "new_task_run now runId options task =
     \<lparr> tr_id = runId,
       tr_task_id = qo_taskId options,
       tr_pipeline_run_id = qo_pipelineRunId options,
       tr_status = Pending,
       tr_code_version = t_code_version task,
       tr_code_hash = t_code_hash task,
       tr_attempt = 1,
       tr_max_retries = t_retries task,
       tr_priority = (case qo_priority options of None \<Rightarrow> t_priority task | Some p \<Rightarrow> p),
       tr_input_path = input_path_for (qo_pipelineRunId options) runId,
       tr_output_path = None,
       tr_output_size = None,
       tr_assets = None,
       tr_logs_path = None,
       tr_upstream_refs = (case qo_upstreamRefs options of None \<Rightarrow> Map.empty | Some u \<Rightarrow> u),
       tr_previous_attempts = [],
       tr_idempotency_key = qo_idempotencyKey options,
       tr_scheduled_for = qo_scheduledFor options,
       tr_created_at = now,
       tr_started_at = None,
       tr_completed_at = None,
       tr_error = None,
       tr_error_code = None,
       tr_metadata = (case qo_metadata options of None \<Rightarrow> ''{}'' | Some m \<Rightarrow> m) \<rparr>"

text \<open>
  \<open>enqueue\<close>: the task definition is loaded first and its absence is an error; a truthy
  idempotency key with a live cache entry returns the cached result and writes nothing;
  otherwise one pending row is inserted. \<open>nid\<close> is what \<open>nanoid()\<close> returns.
\<close>

definition enqueue ::
  "timestamp \<Rightarrow> string \<Rightarrow> queue_task_options \<Rightarrow> db \<Rightarrow> (error + queued_task) \<times> db" where
  "enqueue now nid options d =
     (case select_task (qo_taskId options) d of
        None \<Rightarrow> (Inl (TaskNotFound (qo_taskId options)), d)
      | Some task \<Rightarrow>
         (case (if truthy (qo_idempotencyKey options)
                then checkIdempotency now (the (qo_idempotencyKey options)) d
                else None) of
            Some cached \<Rightarrow>
              (Inr \<lparr> qt_runId = cr_taskRunId cached,
                      qt_taskId = qo_taskId options,
                      qt_status = Completed,
                      qt_inputPath = cr_outputPath cached \<rparr>, d)
          | None \<Rightarrow>
              (Inr \<lparr> qt_runId = ''trun_'' @ nid,
                      qt_taskId = qo_taskId options,
                      qt_status = Pending,
                      qt_inputPath = input_path_for (qo_pipelineRunId options) (''trun_'' @ nid) \<rparr>,
               d\<lparr> task_runs := task_runs d @ [new_task_run now (''trun_'' @ nid) options task] \<rparr>)))"

record pending_task =
  pt_runId :: string
  pt_taskId :: string
  pt_pipelineRunId :: "string option"
  pt_codeVersion :: int
  pt_codeHash :: string
  pt_attempt :: int
  pt_maxRetries :: int
  pt_priority :: int
  pt_inputPath :: string
  pt_upstreamRefs :: "string \<rightharpoonup> upstream_ref"
  pt_previousAttempts :: "attempt_record list"
  pt_idempotencyKey :: "string option"

definition to_pending_task :: "task_run \<Rightarrow> pending_task" where
  "to_pending_task row =
     \<lparr> pt_runId = tr_id row,
       pt_taskId = tr_task_id row,
       pt_pipelineRunId = tr_pipeline_run_id row,
       pt_codeVersion = tr_code_version row,
       pt_codeHash = tr_code_hash row,
       pt_attempt = tr_attempt row,
       pt_maxRetries = tr_max_retries row,
       pt_priority = tr_priority row,
       pt_inputPath = tr_input_path row,
       pt_upstreamRefs = tr_upstream_refs row,
       pt_previousAttempts = tr_previous_attempts row,
       pt_idempotencyKey = tr_idempotency_key row \<rparr>"

text \<open>The CTE \<open>running_counts\<close> of \<open>getNext\<close>: the number of running rows of a task.\<close>

definition running_count :: "string \<Rightarrow> db \<Rightarrow> nat" where
  "running_count taskId d =
     length (filter (\<lambda>r. tr_task_id r = taskId \<and> tr_status r = Running) (task_runs d))"

text \<open>
  The \<open>WHERE\<close> clause of \<open>getNext\<close>. The left join on \<open>tasks\<close> gives a null concurrency
  for a run whose task is not registered, and the row is then dropped.
\<close>

definition eligible :: "timestamp \<Rightarrow> db \<Rightarrow> task_run \<Rightarrow> bool" where
  "eligible now d r =
     (tr_status r = Pending
      \<and> (case tr_scheduled_for r of None \<Rightarrow> True | Some s \<Rightarrow> s \<le> now)
      \<and> (case select_task (tr_task_id r) d of
            None \<Rightarrow> False
          | Some t \<Rightarrow> t_concurrency t = 0 \<or> int (running_count (tr_task_id r) d) < t_concurrency t))"

text \<open>
  \<open>ORDER BY priority ASC, created_at ASC LIMIT $1\<close>: two stable sorts, the minor key
  first; rows equal in both keys stay in table order.
\<close>

definition getNext :: "timestamp \<Rightarrow> nat \<Rightarrow> db \<Rightarrow> pending_task list" where
  "getNext now limit d =
     map to_pending_task
       (take limit
          (sort_key tr_priority (sort_key tr_created_at (filter (eligible now d) (task_runs d)))))"

text \<open>\<open>UPDATE task_runs SET ... WHERE id = $1\<close>: every row with the id, whatever its status.\<close>

definition update_run :: "string \<Rightarrow> (task_run \<Rightarrow> task_run) \<Rightarrow> db \<Rightarrow> db" where
  "update_run runId f d =
     d\<lparr> task_runs := map (\<lambda>r. if tr_id r = runId then f r else r) (task_runs d) \<rparr>"

definition markRunning :: "timestamp \<Rightarrow> string \<Rightarrow> db \<Rightarrow> db" where
  "markRunning now runId d =
     update_run runId (\<lambda>r. r\<lparr> tr_status := Running, tr_started_at := Some now \<rparr>) d"

text \<open>
  \<open>markCompleted\<close> and \<open>markFailed\<close> end with the maintenance hook
  \<open>onTaskStatusChange\<close>, which touches the maintenance state only and is left out.
\<close>

definition markCompleted ::
  "timestamp \<Rightarrow> string \<Rightarrow> string \<Rightarrow> int option \<Rightarrow> json option \<Rightarrow> string option \<Rightarrow> db \<Rightarrow> db" where
  "markCompleted now runId outputPath' outputSize assets' logsPath d =
     update_run runId
       (\<lambda>r. r\<lparr> tr_status := Completed,
                tr_output_path := Some outputPath',
                tr_output_size := outputSize,
                tr_assets := assets',
                tr_logs_path := logsPath,
                tr_completed_at := Some now \<rparr>) d"

definition markFailed :: "timestamp \<Rightarrow> string \<Rightarrow> string \<Rightarrow> string option \<Rightarrow> db \<Rightarrow> db" where
  "markFailed now runId err errorCode d =
     update_run runId
       (\<lambda>r. r\<lparr> tr_status := Failed,
                tr_error := Some err,
                tr_error_code := errorCode,
                tr_completed_at := Some now \<rparr>) d"

section \<open>RetryManager\<close>

record retry_options =
  ro_runId :: string
  ro_taskId :: string
  ro_attempt :: int
  ro_maxRetries :: int
  ro_retryBackoff :: retry_backoff
  ro_retryDelayMs :: int
  ro_maxRetryDelayMs :: int
  ro_error :: string
  ro_errorCode :: "string option"

text \<open>
  \<open>Math.pow(2, attempt - 1)\<close> is taken on the attempts a row can hold, which start at 1.
\<close>

definition calculateDelay :: "retry_options \<Rightarrow> int" where
  "calculateDelay options =
     (if ro_retryBackoff options = Fixed then ro_retryDelayMs options
      else min (ro_retryDelayMs options * 2 ^ nat (ro_attempt options - 1))
               (ro_maxRetryDelayMs options))"

definition scheduleRetry :: "timestamp \<Rightarrow> retry_options \<Rightarrow> db \<Rightarrow> bool \<times> db" where
  "scheduleRetry now options d =
     (if ro_attempt options \<ge> ro_maxRetries options then (False, d)
      else
        (let nextAttempt = ro_attempt options + 1;
             delay = calculateDelay options;
             scheduledFor = now + delay;
             attemptRecord = \<lparr> ar_attempt = ro_attempt options,
                               ar_error = ro_error options,
                               ar_errorCode = ro_errorCode options,
                               ar_timestamp = now \<rparr>
         in (True,
             update_run (ro_runId options)
               (\<lambda>r. r\<lparr> tr_status := Pending,
                        tr_attempt := nextAttempt,
                        tr_scheduled_for := Some scheduledFor,
                        tr_previous_attempts := tr_previous_attempts r @ [attemptRecord],
                        tr_error := None,
                        tr_error_code := None \<rparr>) d)))"

section \<open>DLQManager\<close>

definition dlq_add :: "timestamp \<Rightarrow> string \<Rightarrow> pending_task \<Rightarrow> string \<Rightarrow> db \<Rightarrow> string \<times> db" where
  "dlq_add now nid taskRun err d =
     (let dlqId = ''dlq_'' @ nid
      in (dlqId,
          d\<lparr> dlq := dlq d @
                [\<lparr> dlq_id = dlqId,
                    dlq_task_run_id = pt_runId taskRun,
                    dlq_task_id = pt_taskId taskRun,
                    dlq_pipeline_run_id = pt_pipelineRunId taskRun,
                    dlq_code_version = pt_codeVersion taskRun,
                    dlq_code_hash = pt_codeHash taskRun,
                    dlq_error = err,
                    dlq_attempts = pt_attempt taskRun,
                    dlq_input_path = pt_inputPath taskRun,
                    dlq_upstream_refs = pt_upstreamRefs taskRun,
                    dlq_previous_attempts = pt_previousAttempts taskRun,
                    dlq_failed_at = now \<rparr>] \<rparr>))"

section \<open>HeartbeatMonitor\<close>

text \<open>
  The monitor's in-memory state: the tracker map, and the timeouts that \<open>setTimeout\<close>
  has armed and \<open>clearTimeout\<close> has not cleared. A timer is the run it belongs to, the
  moment it was armed and the delay handed to \<open>setTimeout\<close>.
\<close>

record timer =
  tm_runId :: string
  tm_armedAt :: timestamp
  tm_delayMs :: int

record heartbeat_tracker =
  hb_runId :: string
  hb_taskId :: string
  hb_startedAt :: timestamp
  hb_lastHeartbeat :: timestamp
  hb_timeoutMs :: int
  hb_timeoutHandle :: timer

record monitor =
  trackers :: "string \<rightharpoonup> heartbeat_tracker"
  timers :: "timer list"

definition startTracking :: "timestamp \<Rightarrow> string \<Rightarrow> string \<Rightarrow> int \<Rightarrow> monitor \<Rightarrow> monitor" where
  "startTracking now runId taskId heartbeatIntervalMs m =
     (let timeoutMs = heartbeatIntervalMs * 2;
          handle = \<lparr> tm_runId = runId, tm_armedAt = now, tm_delayMs = timeoutMs \<rparr>;
          tracker = \<lparr> hb_runId = runId,
                      hb_taskId = taskId,
                      hb_startedAt = now,
                      hb_lastHeartbeat = now,
                      hb_timeoutMs = timeoutMs,
                      hb_timeoutHandle = handle \<rparr>
      in m\<lparr> trackers := (trackers m)(runId \<mapsto> tracker), timers := timers m @ [handle] \<rparr>)"

definition cancelTracking :: "string \<Rightarrow> monitor \<Rightarrow> monitor" where
  "cancelTracking runId m =
     (case trackers m runId of
        None \<Rightarrow> m
      | Some tracker \<Rightarrow>
          m\<lparr> trackers := (trackers m)(runId := None),
             timers := remove1 (hb_timeoutHandle tracker) (timers m) \<rparr>)"

record world =
  w_db :: db
  w_monitor :: monitor

text \<open>
  \<open>handleTimeout\<close>: nothing without a tracker; otherwise the guarded update
  \<open>WHERE id = $1 AND status = 'running'\<close>, and the tracker is dropped.
\<close>

definition handleTimeout :: "timestamp \<Rightarrow> string \<Rightarrow> world \<Rightarrow> world" where
  "handleTimeout now runId w =
     (case trackers (w_monitor w) runId of
        None \<Rightarrow> w
      | Some tracker \<Rightarrow>
          w\<lparr> w_db :=
               (w_db w)\<lparr> task_runs :=
                 map (\<lambda>r. if tr_id r = runId \<and> tr_status r = Running
                           then r\<lparr> tr_status := Timeout,
                                    tr_error := Some ''Task heartbeat timeout'',
                                    tr_error_code := Some ''TIMEOUT'',
                                    tr_completed_at := Some now \<rparr>
                           else r)
                   (task_runs (w_db w)) \<rparr>,
             w_monitor := (w_monitor w)\<lparr> trackers := (trackers (w_monitor w))(runId := None) \<rparr> \<rparr>)"

text \<open>An armed timer fires: it leaves the armed set and its callback runs.\<close>

definition fireTimer :: "timestamp \<Rightarrow> timer \<Rightarrow> world \<Rightarrow> world" where
  "fireTimer now tm w =
     (if tm \<in> set (timers (w_monitor w))
      then handleTimeout now (tm_runId tm)
             (w\<lparr> w_monitor := (w_monitor w)\<lparr> timers := remove1 tm (timers (w_monitor w)) \<rparr> \<rparr>)
      else w)"


section \<open>TaskPoller\<close>

text \<open>
  The worker transport (\<open>TaskExecutor.dispatch\<close>) is an external collaborator: it is the
  parameter \<open>dispatch\<close>, which returns what the call throws, if anything. The
  maintenance check \<open>canAcceptTasks\<close> is the parameter \<open>canAccept\<close>.
\<close>

datatype thrown = ErrorObject string | OtherValue

definition error_message :: "thrown \<Rightarrow> string" where
  "error_message e = (case e of ErrorObject m \<Rightarrow> m | OtherValue \<Rightarrow> ''Unknown error'')"

text \<open>The body that \<open>poll\<close> runs for one claimed task.\<close>

definition dispatchTask ::
  "timestamp \<Rightarrow> (pending_task \<Rightarrow> thrown option) \<Rightarrow> string \<Rightarrow> pending_task \<Rightarrow> world \<Rightarrow> world" where
  "dispatchTask now dispatch nid task w =
     (let d1 = markRunning now (pt_runId task) (w_db w);
          taskDef = select_task (pt_taskId task) d1
      in case dispatch task of
           None \<Rightarrow>
             (case taskDef of
                Some td \<Rightarrow>
                  w\<lparr> w_db := d1,
                     w_monitor := startTracking now (pt_runId task) (pt_taskId task)
                                    (t_heartbeat_interval_ms td) (w_monitor w) \<rparr>
              | None \<Rightarrow> w\<lparr> w_db := d1 \<rparr>)
         | Some e \<Rightarrow>
             (if taskDef \<noteq> None \<and> pt_attempt task < pt_maxRetries task
              then w\<lparr> w_db :=
                        snd (scheduleRetry now
                               \<lparr> ro_runId = pt_runId task,
                                 ro_taskId = pt_taskId task,
                                 ro_attempt = pt_attempt task,
                                 ro_maxRetries = pt_maxRetries task,
                                 ro_retryBackoff = t_retry_backoff (the taskDef),
                                 ro_retryDelayMs = t_retry_delay_ms (the taskDef),
                                 ro_maxRetryDelayMs = t_max_retry_delay_ms (the taskDef),
                                 ro_error = error_message e,
                                 ro_errorCode = Some ''DISPATCH_FAILED'' \<rparr> d1) \<rparr>
              else w\<lparr> w_db :=
                        markFailed now (pt_runId task) (error_message e) (Some ''DISPATCH_FAILED'')
                          (snd (dlq_add now nid task (error_message e) d1)) \<rparr>))"

text \<open>
  One poll cycle. The claimed tasks are dispatched one after the other, in the order
  \<open>getNext\<close> returned them; \<open>gen i\<close> is the \<open>nanoid()\<close> available to the i-th of them.
\<close>

definition poll ::
  "timestamp \<Rightarrow> bool \<Rightarrow> nat \<Rightarrow> (pending_task \<Rightarrow> thrown option) \<Rightarrow> (nat \<Rightarrow> string) \<Rightarrow> world
     \<Rightarrow> nat \<times> world" where
  "poll now canAccept maxConcurrency dispatch gen w =
     (if \<not> canAccept then (0, w)
      else
        (let claimed = getNext now maxConcurrency (w_db w)
         in if claimed = [] then (0, w)
            else (length claimed,
                  fold (\<lambda>(i, task). dispatchTask now dispatch (gen i) task)
                    (enumerate 0 claimed) w)))"

section \<open>ServiceRegistry\<close>

text \<open>A task as it arrives in a registration request; every setting but the id is optional.\<close>

record task_config =
  tc_id :: string
  tc_allowedNext :: "string list option"
  tc_timeout :: "int option"
  tc_retries :: "int option"
  tc_retryBackoff :: "retry_backoff option"
  tc_retryDelayMs :: "int option"
  tc_maxRetryDelayMs :: "int option"
  tc_heartbeatIntervalMs :: "int option"
  tc_concurrency :: "int option"
  tc_priority :: "int option"
  tc_idempotencyTTL :: "int option"
  tc_description :: "string option"

record register_service_request =
  rq_serviceId :: string
  rq_version :: string
  rq_baseUrl :: string
  rq_tasks :: "task_config list"

record code_change =
  cc_taskId :: string
  cc_oldHash :: string
  cc_newHash :: string
  cc_oldVersion :: int
  cc_newVersion :: int

record register_service_response =
  rs_success :: bool
  rs_codeChanges :: "code_change list"
  rs_orphanedTasks :: "string list option"

text \<open>
  \<open>calculateCodeHash\<close>: the first 16 characters of the hex digest. The digest itself
  (\<open>crypto.createHash('sha256')\<close>) is the parameter \<open>sha256_hex\<close>.
\<close>

definition calculateCodeHash :: "(string \<Rightarrow> string) \<Rightarrow> string \<Rightarrow> string" where
  "calculateCodeHash sha256_hex content = take 16 (sha256_hex content)"

text \<open>\<open>INSERT INTO services ... ON CONFLICT (id) DO UPDATE\<close>.\<close>

definition upsert_service :: "timestamp \<Rightarrow> string \<Rightarrow> string \<Rightarrow> string \<Rightarrow> db \<Rightarrow> db" where
  "upsert_service now serviceId version baseUrl d =
     (if select_service serviceId d = None
      then d\<lparr> services := services d @
                 [\<lparr> s_id = serviceId, s_version = version, s_base_url = baseUrl,
                     s_registered_at = now, s_last_heartbeat = Some now, s_status = Active \<rparr>] \<rparr>
      else d\<lparr> services :=
                 map (\<lambda>s. if s_id s = serviceId
                           then s\<lparr> s_version := version, s_base_url := baseUrl,
                                    s_last_heartbeat := Some now, s_status := Active \<rparr>
                           else s) (services d) \<rparr>)"

text \<open>The orphan pass: pending runs of a task the new version no longer lists are cancelled.\<close>

definition cancel_pending_of_task :: "timestamp \<Rightarrow> string \<Rightarrow> string \<Rightarrow> db \<Rightarrow> db" where
  "cancel_pending_of_task now version taskId d =
     d\<lparr> task_runs :=
          map (\<lambda>r. if tr_task_id r = taskId \<and> tr_status r = Pending
                    then r\<lparr> tr_status := Cancelled,
                             tr_error := Some (''Task type removed in version '' @ version),
                             tr_completed_at := Some now \<rparr>
                    else r) (task_runs d) \<rparr>"

definition orphan_pass :: "timestamp \<Rightarrow> register_service_request \<Rightarrow> db \<Rightarrow> string list \<times> db" where
  "orphan_pass now request d =
     (let newTaskIds = map tc_id (rq_tasks request);
          existingTasks = map t_id (filter (\<lambda>t. t_service_id t = rq_serviceId request) (tasks d));
          orphanedTasks = filter (\<lambda>i. i \<notin> set newTaskIds) existingTasks
      in (orphanedTasks, fold (cancel_pending_of_task now (rq_version request)) orphanedTasks d))"

text \<open>\<open>INSERT INTO tasks ... ON CONFLICT (id) DO UPDATE\<close>: a row that exists keeps its
  \<open>registered_at\<close>.\<close>

definition upsert_task ::
  "timestamp \<Rightarrow> string \<Rightarrow> string \<Rightarrow> int \<Rightarrow> task_config \<Rightarrow> db \<Rightarrow> db" where
  "upsert_task now serviceId codeHash newVersion task d =
     (let row = \<lparr> t_id = tc_id task,
                  t_service_id = serviceId,
                  t_code_hash = codeHash,
                  t_code_version = newVersion,
                  t_allowed_next = nullish (tc_allowedNext task) [],
                  t_timeout_seconds = nullish (tc_timeout task) 300,
                  t_retries = nullish (tc_retries task) 3,
                  t_retry_backoff = nullish (tc_retryBackoff task) Exponential,
                  t_retry_delay_ms = nullish (tc_retryDelayMs task) 1000,
                  t_max_retry_delay_ms = nullish (tc_maxRetryDelayMs task) 86400000,
                  t_heartbeat_interval_ms = nullish (tc_heartbeatIntervalMs task) 60000,
                  t_concurrency = nullish (tc_concurrency task) 0,
                  t_priority = nullish (tc_priority task) 100,
                  t_idempotency_ttl_seconds = tc_idempotencyTTL task,
                  t_description = tc_description task,
                  t_registered_at = now,
                  t_updated_at = now \<rparr>
      in if select_task (tc_id task) d = None
         then d\<lparr> tasks := tasks d @ [row] \<rparr>
         else d\<lparr> tasks :=
                   map (\<lambda>t. if t_id t = tc_id task
                             then row\<lparr> t_registered_at := t_registered_at t \<rparr>
                             else t) (tasks d) \<rparr>)"

text \<open>\<open>INSERT INTO task_code_history ... WHERE NOT EXISTS (...)\<close>.\<close>

definition record_code_history :: "timestamp \<Rightarrow> string \<Rightarrow> int \<Rightarrow> string \<Rightarrow> string \<Rightarrow> db \<Rightarrow> db" where
  "record_code_history now taskId newVersion codeHash version d =
     (if \<exists>h \<in> set (task_code_history d). h_task_id h = taskId \<and> h_code_hash h = codeHash
      then d
      else d\<lparr> task_code_history := task_code_history d @
                 [\<lparr> h_task_id = taskId, h_code_version = newVersion, h_code_hash = codeHash,
                     h_service_version = version, h_recorded_at = now \<rparr>] \<rparr>)"

text \<open>
  The body of the loop over the request's tasks. \<open>stringify\<close> is \<open>JSON.stringify\<close> on a
  task of the request.
\<close>

definition register_task ::
  "(string \<Rightarrow> string) \<Rightarrow> (task_config \<Rightarrow> string) \<Rightarrow> timestamp \<Rightarrow> string \<Rightarrow> string \<Rightarrow> task_config
     \<Rightarrow> code_change list \<times> db \<Rightarrow> code_change list \<times> db" where
  "register_task sha256_hex stringify now serviceId version task acc =
     (let codeChanges = fst acc;
          d = snd acc;
          codeHash = calculateCodeHash sha256_hex (stringify task);
          existingTask = select_task (tc_id task) d;
          hashChanged = (case existingTask of None \<Rightarrow> False | Some e \<Rightarrow> t_code_hash e \<noteq> codeHash);
          newVersion = (if hashChanged then t_code_version (the existingTask) + 1
                        else (case existingTask of None \<Rightarrow> 1 | Some e \<Rightarrow> t_code_version e));
          d1 = upsert_task now serviceId codeHash newVersion task d
      in if hashChanged
         then (codeChanges @
                 [\<lparr> cc_taskId = tc_id task,
                     cc_oldHash = t_code_hash (the existingTask),
                     cc_newHash = codeHash,
                     cc_oldVersion = t_code_version (the existingTask),
                     cc_newVersion = newVersion \<rparr>],
               record_code_history now (tc_id task) newVersion codeHash version d1)
         else (codeChanges, d1))"

definition registerService ::
  "(string \<Rightarrow> string) \<Rightarrow> (task_config \<Rightarrow> string) \<Rightarrow> timestamp \<Rightarrow> register_service_request \<Rightarrow> db
     \<Rightarrow> register_service_response \<times> db" where
  "registerService sha256_hex stringify now request d =
     (let existingService = select_service (rq_serviceId request) d;
          versionChanged =
            (case existingService of None \<Rightarrow> False | Some s \<Rightarrow> s_version s \<noteq> rq_version request);
          d1 = upsert_service now (rq_serviceId request) (rq_version request) (rq_baseUrl request) d;
          orph = (if versionChanged then orphan_pass now request d1 else ([], d1));
          res = fold (register_task sha256_hex stringify now (rq_serviceId request)
                        (rq_version request))
                  (rq_tasks request) ([], snd orph)
      in (\<lparr> rs_success = True,
             rs_codeChanges = fst res,
             rs_orphanedTasks = (if fst orph \<noteq> [] then Some (fst orph) else None) \<rparr>,
          snd res))"


section \<open>PipelineExecutor\<close>

text \<open>The predecessors of a task in a structure snapshot: the entries that list it.\<close>

definition predecessors_of :: "pipeline_structure \<Rightarrow> string \<Rightarrow> string list" where
  "predecessors_of snapshot taskId =
     map fst (filter (\<lambda>entry. taskId \<in> set (snd entry)) snapshot)"

text \<open>
  The rows both \<open>isJoinTaskReady\<close> and \<open>buildUpstreamRefs\<close> select:
  \<open>WHERE pipeline_run_id = $1 AND task_id = ANY($2) AND status = 'completed'\<close>.
\<close>

definition completed_runs_of :: "string \<Rightarrow> string list \<Rightarrow> db \<Rightarrow> task_run list" where
  "completed_runs_of pipelineRunId predecessors d =
     filter (\<lambda>r. tr_pipeline_run_id r = Some pipelineRunId
                \<and> tr_task_id r \<in> set predecessors
                \<and> tr_status r = Completed) (task_runs d)"

definition isJoinTaskReady :: "string \<Rightarrow> string \<Rightarrow> db \<Rightarrow> bool" where
  "isJoinTaskReady taskId pipelineRunId d =
     (case select_pipeline_run pipelineRunId d of
        None \<Rightarrow> False
      | Some pipelineRun \<Rightarrow>
          (let predecessors = predecessors_of (pr_structure_snapshot pipelineRun) taskId
           in if length predecessors = 0 then True
              else if length predecessors = 1 then True
              else length (completed_runs_of pipelineRunId predecessors d)
                     = length predecessors))"

text \<open>
  \<open>ORDER BY completed_at DESC\<close>: nulls come first, the rest by descending time; rows
  with the same time stay in table order.
\<close>

definition order_by_completed_at_desc :: "task_run list \<Rightarrow> task_run list" where
  "order_by_completed_at_desc rows =
     filter (\<lambda>r. tr_completed_at r = None) rows
     @ sort_key (\<lambda>r. - the (tr_completed_at r)) (filter (\<lambda>r. tr_completed_at r \<noteq> None) rows)"

definition buildUpstreamRefs :: "string \<Rightarrow> string \<Rightarrow> db \<Rightarrow> (string \<rightharpoonup> upstream_ref)" where
  "buildUpstreamRefs taskId pipelineRunId d =
     (case select_pipeline_run pipelineRunId d of
        None \<Rightarrow> Map.empty
      | Some pipelineRun \<Rightarrow>
          (let predecessors = predecessors_of (pr_structure_snapshot pipelineRun) taskId
           in if length predecessors = 0 then Map.empty
              else
                (let upstreamRuns =
                       order_by_completed_at_desc (completed_runs_of pipelineRunId predecessors d)
                 in fold (\<lambda>run upstreamRefs.
                            if truthy (tr_output_path run)
                            then upstreamRefs(tr_task_id run \<mapsto>
                                   \<lparr> outputPath = the (tr_output_path run),
                                     assets = nullish (tr_assets run) ''{}'' \<rparr>)
                            else upstreamRefs)
                      upstreamRuns Map.empty)))"

text \<open>\<open>UPDATE pipeline_runs SET status = $2, completed_at = NOW() WHERE id = $1\<close>.\<close>

definition update_pipeline_run_status :: "timestamp \<Rightarrow> string \<Rightarrow> pipeline_status \<Rightarrow> db \<Rightarrow> db" where
  "update_pipeline_run_status now pipelineRunId status d =
     d\<lparr> pipeline_runs :=
          map (\<lambda>p. if pr_id p = pipelineRunId
                    then p\<lparr> pr_status := status, pr_completed_at := Some now \<rparr>
                    else p) (pipeline_runs d) \<rparr>"

definition checkPipelineCompletion :: "timestamp \<Rightarrow> string \<Rightarrow> db \<Rightarrow> db" where
  "checkPipelineCompletion now pipelineRunId d =
     (case select_pipeline_run pipelineRunId d of
        None \<Rightarrow> d
      | Some pipelineRun \<Rightarrow>
          if pr_status pipelineRun \<noteq> PipelineRunning then d
          else if length (filter (\<lambda>r. tr_pipeline_run_id r = Some pipelineRunId
                                     \<and> tr_status r \<in> {Pending, Running, Waiting})
                            (task_runs d)) > 0 then d
          else
            (let hasFailures =
                   (length (filter (\<lambda>r. tr_pipeline_run_id r = Some pipelineRunId
                                        \<and> tr_status r \<in> {Failed, Timeout, Cancelled})
                              (task_runs d)) > 0)
             in update_pipeline_run_status now pipelineRunId
                  (if hasFailures then PipelineFailed else PipelineCompleted) d))"

text \<open>The options \<open>queueDownstreamTasks\<close> hands to \<open>enqueue\<close> for a next task.\<close>

definition downstream_options :: "task_run \<Rightarrow> string \<Rightarrow> db \<Rightarrow> queue_task_options" where
  "downstream_options taskRun nextTaskId d =
     \<lparr> qo_taskId = nextTaskId,
       qo_input = ''{}'',
       qo_priority = Some (tr_priority taskRun),
       qo_pipelineRunId = Some (the (tr_pipeline_run_id taskRun)),
       qo_upstreamRefs = Some (buildUpstreamRefs nextTaskId (the (tr_pipeline_run_id taskRun)) d),
       qo_metadata = None,
       qo_idempotencyKey = None,
       qo_scheduledFor = None \<rparr>"

text \<open>
  The loop of \<open>queueDownstreamTasks\<close> over the next task ids. The rows are inserted by
  \<open>QueueManager.enqueue\<close> on the manager's own connection, so an error of a later
  \<open>enqueue\<close> leaves the earlier rows in place. \<open>gen k\<close> is the k-th \<open>nanoid()\<close>.
\<close>

fun queueNextTasks ::
  "timestamp \<Rightarrow> (nat \<Rightarrow> string) \<Rightarrow> nat \<Rightarrow> task_run \<Rightarrow> string list \<Rightarrow> string list \<Rightarrow> db
     \<Rightarrow> (error + string list) \<times> db" where
  "queueNextTasks now gen k taskRun [] queued d = (Inr queued, d)"
| "queueNextTasks now gen k taskRun (nextTaskId # rest) queued d =
     (if \<not> isJoinTaskReady nextTaskId (the (tr_pipeline_run_id taskRun)) d
      then queueNextTasks now gen k taskRun rest queued d
      else
        (case enqueue now (gen k) (downstream_options taskRun nextTaskId d) d of
           (Inl e, d') \<Rightarrow> (Inl e, d')
         | (Inr queuedTask, d') \<Rightarrow>
             queueNextTasks now gen (Suc k) taskRun rest (queued @ [qt_runId queuedTask]) d'))"

definition queueDownstreamTasks ::
  "timestamp \<Rightarrow> (nat \<Rightarrow> string) \<Rightarrow> string \<Rightarrow> string list option \<Rightarrow> db
     \<Rightarrow> (error + string list) \<times> db" where
  "queueDownstreamTasks now gen completedTaskRunId selectedNext d =
     (case select_task_run completedTaskRunId d of
        None \<Rightarrow> (Inl (TaskRunNotFound completedTaskRunId), d)
      | Some taskRun \<Rightarrow>
          if \<not> truthy (tr_pipeline_run_id taskRun) then (Inr [], d)
          else
            (case select_task (tr_task_id taskRun) d of
               None \<Rightarrow> (Inl (TaskNotFound (tr_task_id taskRun)), d)
             | Some task \<Rightarrow>
                 (let nextTaskIds =
                        (case selectedNext of
                           None \<Rightarrow> t_allowed_next task
                         | Some sel \<Rightarrow>
                             if length sel > 0
                             then filter (\<lambda>i. i \<in> set (t_allowed_next task)) sel
                             else t_allowed_next task)
                  in if length nextTaskIds = 0
                     then (Inr [],
                           checkPipelineCompletion now (the (tr_pipeline_run_id taskRun)) d)
                     else queueNextTasks now gen 0 taskRun nextTaskIds [] d)))"

text \<open>The fail-fast cancellation: every pending run of the pipeline run is cancelled.\<close>

definition cancel_pending_of_run :: "timestamp \<Rightarrow> string \<Rightarrow> db \<Rightarrow> db" where
  "cancel_pending_of_run now pipelineRunId d =
     d\<lparr> task_runs :=
          map (\<lambda>r. if tr_pipeline_run_id r = Some pipelineRunId \<and> tr_status r = Pending
                    then r\<lparr> tr_status := Cancelled,
                             tr_error := Some ''Pipeline failed in fail-fast mode'',
                             tr_completed_at := Some now \<rparr>
                    else r) (task_runs d) \<rparr>"

definition handleTaskFailure :: "timestamp \<Rightarrow> string \<Rightarrow> db \<Rightarrow> db" where
  "handleTaskFailure now taskRunId d =
     (case select_task_run taskRunId d of
        None \<Rightarrow> d
      | Some taskRun \<Rightarrow>
          if \<not> truthy (tr_pipeline_run_id taskRun) then d
          else
            (let pipelineRunId = the (tr_pipeline_run_id taskRun)
             in case select_pipeline_run pipelineRunId d of
                  None \<Rightarrow> d
                | Some pipelineRun \<Rightarrow>
                    if pr_failure_mode pipelineRun = FailFast
                    then update_pipeline_run_status now pipelineRunId PipelineFailed
                           (cancel_pending_of_run now pipelineRunId d)
                    else checkPipelineCompletion now pipelineRunId d))"

record trigger_pipeline_options =
  tp_pipelineId :: string
  tp_input :: json
  tp_failureMode :: "failure_mode option"
  tp_priority :: "int option"
  tp_metadata :: "json option"

record pipeline_run_info =
  pi_pipelineRunId :: string
  pi_pipelineId :: string
  pi_status :: pipeline_status
  pi_inputPath :: string
  pi_entryTaskIds :: "string list"
  pi_queuedTasks :: "string list"

text \<open>The options \<open>triggerPipeline\<close> hands to \<open>enqueue\<close> for an entry task.\<close>

definition entry_options :: "trigger_pipeline_options \<Rightarrow> string \<Rightarrow> string \<Rightarrow> queue_task_options" where
  "entry_options options pipelineRunId taskId =
     \<lparr> qo_taskId = taskId,
       qo_input = tp_input options,
       qo_priority = tp_priority options,
       qo_pipelineRunId = Some pipelineRunId,
       qo_upstreamRefs = None,
       qo_metadata = tp_metadata options,
       qo_idempotencyKey = None,
       qo_scheduledFor = None \<rparr>"

text \<open>The loop of \<open>triggerPipeline\<close> over the entry tasks.\<close>

fun queueEntryTasks ::
  "timestamp \<Rightarrow> (nat \<Rightarrow> string) \<Rightarrow> nat \<Rightarrow> trigger_pipeline_options \<Rightarrow> string \<Rightarrow> string list
     \<Rightarrow> string list \<Rightarrow> db \<Rightarrow> (error + string list) \<times> db" where
  "queueEntryTasks now gen k options pipelineRunId [] queuedTasks d = (Inr queuedTasks, d)"
| "queueEntryTasks now gen k options pipelineRunId (taskId # rest) queuedTasks d =
     (case enqueue now (gen k) (entry_options options pipelineRunId taskId) d of
        (Inl e, d') \<Rightarrow> (Inl e, d')
      | (Inr queued, d') \<Rightarrow>
          queueEntryTasks now gen (Suc k) options pipelineRunId rest
            (queuedTasks @ [qt_runId queued]) d')"

text \<open>
  The row \<open>triggerPipeline\<close> inserts into \<open>pipeline_runs\<close>. \<open>failureMode\<close> is the
  destructured option after its default has been applied; the value written is
  \<open>failureMode ?? pipeline.failure_mode\<close>.
\<close>

definition new_pipeline_run ::
  "timestamp \<Rightarrow> string \<Rightarrow> trigger_pipeline_options \<Rightarrow> failure_mode option \<Rightarrow> pipeline
     \<Rightarrow> pipeline_run" where
  "new_pipeline_run now pipelineRunId options failureMode pipeline =
     \<lparr> pr_id = pipelineRunId,
       pr_pipeline_id = tp_pipelineId options,
       pr_pipeline_version = p_version pipeline,
       pr_structure_snapshot = p_structure pipeline,
       pr_status = PipelineRunning,
       pr_input_path = ''runs/'' @ pipelineRunId @ ''/input.json'',
       pr_failure_mode = nullish failureMode (p_failure_mode pipeline),
       pr_created_at = now,
       pr_completed_at = None,
       pr_metadata = nullish (tp_metadata options) ''{}'' \<rparr>"

text \<open>
  \<open>triggerPipeline\<close>. The destructuring default turns an absent \<open>failureMode\<close> into
  \<open>'fail-fast'\<close> before anything else. The verdict of the validator on the entry tasks
  is the parameter \<open>validatePipeline\<close> (validity and error messages). The pipeline run
  is inserted inside the transaction and disappears when an \<open>enqueue\<close> throws; the
  rows \<open>enqueue\<close> wrote before that were written on the manager's own connection.
\<close>

definition triggerPipeline ::
  "(string list \<Rightarrow> db \<Rightarrow> bool \<times> string list) \<Rightarrow> timestamp \<Rightarrow> (nat \<Rightarrow> string)
     \<Rightarrow> trigger_pipeline_options \<Rightarrow> db \<Rightarrow> (error + pipeline_run_info) \<times> db" where
  "triggerPipeline validatePipeline now gen options d =
     (let failureMode = (case tp_failureMode options of None \<Rightarrow> Some FailFast | Some m \<Rightarrow> Some m)
      in case select_pipeline (tp_pipelineId options) d of
           None \<Rightarrow> (Inl (PipelineNotFound (tp_pipelineId options)), d)
         | Some pipeline \<Rightarrow>
             if \<not> fst (validatePipeline (p_entry_tasks pipeline) d)
             then (Inl (PipelineValidationFailed
                          (snd (validatePipeline (p_entry_tasks pipeline) d))), d)
             else
               (let pipelineRunId = ''prun_'' @ gen 0;
                    inputPath = ''runs/'' @ pipelineRunId @ ''/input.json'';
                    d1 = d\<lparr> pipeline_runs := pipeline_runs d @
                             [new_pipeline_run now pipelineRunId options failureMode pipeline] \<rparr>
                in case queueEntryTasks now gen 1 options pipelineRunId (p_entry_tasks pipeline)
                          [] d1 of
                     (Inl e, d') \<Rightarrow> (Inl e, d'\<lparr> pipeline_runs := pipeline_runs d \<rparr>)
                   | (Inr queuedTasks, d') \<Rightarrow>
                       (Inr \<lparr> pi_pipelineRunId = pipelineRunId,
                               pi_pipelineId = tp_pipelineId options,
                               pi_status = PipelineRunning,
                               pi_inputPath = inputPath,
                               pi_entryTaskIds = p_entry_tasks pipeline,
                               pi_queuedTasks = queuedTasks \<rparr>, d')))"

section \<open>Operations on task runs\<close>



section \<open>Example states\<close>

definition example_task :: "string \<Rightarrow> string list \<Rightarrow> int \<Rightarrow> int \<Rightarrow> task_def" where
  "example_task taskId allowedNext concurrency retries =
     \<lparr> t_id = taskId, t_service_id = ''svc'', t_code_hash = ''0123456789abcdef'',
       t_code_version = 1, t_allowed_next = allowedNext, t_timeout_seconds = 300,
       t_retries = retries, t_retry_backoff = Exponential, t_retry_delay_ms = 100,
       t_max_retry_delay_ms = 10000, t_heartbeat_interval_ms = 60000,
       t_concurrency = concurrency, t_priority = 100, t_idempotency_ttl_seconds = None,
       t_description = None, t_registered_at = 0, t_updated_at = 0 \<rparr>"

definition example_run :: "string \<Rightarrow> string \<Rightarrow> string option \<Rightarrow> task_status \<Rightarrow> task_run" where
  "example_run runId taskId pipelineRunId status =
     \<lparr> tr_id = runId, tr_task_id = taskId, tr_pipeline_run_id = pipelineRunId,
       tr_status = status, tr_code_version = 1, tr_code_hash = ''0123456789abcdef'',
       tr_attempt = 1, tr_max_retries = 2, tr_priority = 100, tr_input_path = ''in.json'',
       tr_output_path = None, tr_output_size = None, tr_assets = None, tr_logs_path = None,
       tr_upstream_refs = Map.empty, tr_previous_attempts = [], tr_idempotency_key = None,
       tr_scheduled_for = None, tr_created_at = 0, tr_started_at = None,
       tr_completed_at = None, tr_error = None, tr_error_code = None, tr_metadata = ''{}'' \<rparr>"

definition example_completed_run ::
  "string \<Rightarrow> string \<Rightarrow> string \<Rightarrow> timestamp \<Rightarrow> string \<Rightarrow> task_run" where
  "example_completed_run runId taskId pipelineRunId completedAt output =
     (example_run runId taskId (Some pipelineRunId) Completed)
       \<lparr> tr_output_path := Some output, tr_completed_at := Some completedAt \<rparr>"

definition example_pipeline_run :: "string \<Rightarrow> pipeline_structure \<Rightarrow> failure_mode \<Rightarrow> pipeline_run" where
  "example_pipeline_run pipelineRunId snapshot failureMode =
     \<lparr> pr_id = pipelineRunId, pr_pipeline_id = ''pipe'', pr_pipeline_version = ''1.0.0'',
       pr_structure_snapshot = snapshot, pr_status = PipelineRunning,
       pr_input_path = ''runs/in.json'', pr_failure_mode = failureMode, pr_created_at = 0,
       pr_completed_at = None, pr_metadata = ''{}'' \<rparr>"

definition empty_db :: db where
  "empty_db = \<lparr> services = [], tasks = [], task_code_history = [], pipelines = [],
                pipeline_runs = [], task_runs = [], dlq = [], idempotency_cache = [] \<rparr>"

definition example_cache_row :: "string \<Rightarrow> timestamp \<Rightarrow> cache_row" where
  "example_cache_row k expires =
     \<lparr> ic_idempotency_key = k, ic_task_id = ''pay'', ic_task_run_id = ''trun_first'',
       ic_code_version = 1, ic_output_path = ''o_pay'', ic_output_size = None,
       ic_assets = None, ic_cached_at = 0, ic_expires_at = expires \<rparr>"

definition example_enqueue_options :: "string \<Rightarrow> string option \<Rightarrow> queue_task_options" where
  "example_enqueue_options taskId k =
     \<lparr> qo_taskId = taskId, qo_input = ''{}'', qo_priority = None, qo_pipelineRunId = None,
       qo_upstreamRefs = None, qo_metadata = None, qo_idempotencyKey = k,
       qo_scheduledFor = None \<rparr>"

definition example_nanoid :: "nat \<Rightarrow> string" where
  "example_nanoid k = replicate (Suc k) (CHR ''x'')"

text \<open>The diamond's join: \<open>B\<close> and \<open>C\<close> both lead to \<open>D\<close>.\<close>

definition join_snapshot :: pipeline_structure where
  "join_snapshot = [(''B'', [''D'']), (''C'', [''D'']), (''D'', [])]"

definition join_db :: "task_run list \<Rightarrow> db" where
  "join_db runs =
     empty_db\<lparr> tasks := [example_task ''B'' [''D''] 0 2, example_task ''C'' [''D''] 0 2,
                          example_task ''D'' [] 0 2],
               pipeline_runs := [example_pipeline_run ''p1'' join_snapshot Continue],
               task_runs := runs \<rparr>"

definition b_twice :: "task_run list" where
  "b_twice = [example_completed_run ''b1'' ''B'' ''p1'' 10 ''o1'',
              example_completed_run ''b2'' ''B'' ''p1'' 20 ''o2'',
              example_run ''c1'' ''C'' (Some ''p1'') Running]"

definition all_completed :: "task_run list" where
  "all_completed = [example_completed_run ''b1'' ''B'' ''p1'' 10 ''o1'',
                    example_completed_run ''b2'' ''B'' ''p1'' 20 ''o2'',
                    example_completed_run ''c1'' ''C'' ''p1'' 30 ''o3'']"

definition db_pay_cached :: db where
  "db_pay_cached = empty_db\<lparr> tasks := [example_task ''pay'' [] 0 2],
                            idempotency_cache := [example_cache_row ''v1-o1'' 3600] \<rparr>"

text \<open>A line \<open>A \<rightarrow> B\<close> in which \<open>A\<close> has completed twice.\<close>

definition linear_snapshot :: pipeline_structure where
  "linear_snapshot = [(''A'', [''B'']), (''B'', [])]"

definition linear_db :: "task_run list \<Rightarrow> db" where
  "linear_db runs =
     empty_db\<lparr> tasks := [example_task ''A'' [''B''] 0 2, example_task ''B'' [] 0 2],
               pipeline_runs := [example_pipeline_run ''p1'' linear_snapshot Continue],
               task_runs := runs \<rparr>"

definition a_twice :: "task_run list" where
  "a_twice = [example_completed_run ''a1'' ''A'' ''p1'' 10 ''o1'',
              example_completed_run ''a2'' ''A'' ''p1'' 20 ''o2'']"

text \<open>A task of concurrency 1 with two pending runs, and an idle monitor.\<close>

definition capped_db :: db where
  "capped_db =
     empty_db\<lparr> tasks := [example_task ''T'' [] 1 2],
               task_runs := [example_run ''r1'' ''T'' None Pending,
                             example_run ''r2'' ''T'' None Pending] \<rparr>"

definition idle_monitor :: monitor where
  "idle_monitor = \<lparr> trackers = Map.empty, timers = [] \<rparr>"

definition no_throw :: "pending_task \<Rightarrow> thrown option" where
  "no_throw task = None"

definition always_throw :: "pending_task \<Rightarrow> thrown option" where
  "always_throw task = Some (ErrorObject ''boom'')"

text \<open>Task \<open>X\<close> of scenario S3: two retries, exponential backoff from 100 ms, capped at 10 s.\<close>

definition retry_db :: db where
  "retry_db = empty_db\<lparr> tasks := [example_task ''X'' [] 0 2] \<rparr>"

definition retry_run :: task_run where
  "retry_run = new_task_run 0 ''trun_x'' (example_enqueue_options ''X'' None) (example_task ''X'' [] 0 2)"

definition retry_world :: world where
  "retry_world = \<lparr> w_db = snd (enqueue 0 ''x'' (example_enqueue_options ''X'' None) retry_db),
                    w_monitor = idle_monitor \<rparr>"

definition first_failure :: world where
  "first_failure = snd (poll 1000 True 10 always_throw example_nanoid retry_world)"

definition second_failure :: world where
  "second_failure = snd (poll 1100 True 10 always_throw example_nanoid first_failure)"

definition summary :: "task_run \<Rightarrow> task_status \<times> int \<times> timestamp option \<times> int list \<times> string option" where
  "summary r = (tr_status r, tr_attempt r, tr_scheduled_for r,
                map ar_attempt (tr_previous_attempts r), tr_error r)"

definition retried_run :: task_run where
  "retried_run =
     retry_run\<lparr> tr_status := Pending, tr_started_at := Some 1000, tr_attempt := 2,
                 tr_scheduled_for := Some 1100,
                 tr_previous_attempts := [\<lparr> ar_attempt = 1, ar_error = ''boom'',
                                            ar_errorCode = Some ''DISPATCH_FAILED'',
                                            ar_timestamp = 1000 \<rparr>],
                 tr_error := None, tr_error_code := None \<rparr>"

text \<open>A running run and a completed one, for the heartbeat timeout.\<close>

definition heartbeat_world :: world where
  "heartbeat_world =
     \<lparr> w_db = empty_db\<lparr> task_runs := [example_run ''r1'' ''T'' None Running,
                                         example_run ''r2'' ''T'' None Completed] \<rparr>,
       w_monitor = idle_monitor \<rparr>"

text \<open>A pipeline whose definition says \<open>continue\<close>, with one entry task.\<close>

definition continue_db :: db where
  "continue_db =
     empty_db\<lparr> tasks := [example_task ''A'' [] 0 2],
               pipelines := [\<lparr> p_id = ''pipe'', p_name = ''P'', p_entry_tasks = [''A''],
                                p_structure = [(''A'', [])], p_version = ''1.0.0'',
                                p_failure_mode = Continue \<rparr>] \<rparr>"

definition trigger_default :: trigger_pipeline_options where
  "trigger_default = \<lparr> tp_pipelineId = ''pipe'', tp_input = ''{}'', tp_failureMode = None,
                        tp_priority = None, tp_metadata = None \<rparr>"

definition accepting :: "string list \<Rightarrow> db \<Rightarrow> bool \<times> string list" where
  "accepting taskIds d = (True, [])"

text \<open>The row a heartbeat timeout writes.\<close>

definition timed_out :: "timestamp \<Rightarrow> task_run \<Rightarrow> task_run" where
  "timed_out now r = r\<lparr> tr_status := Timeout, tr_error := Some ''Task heartbeat timeout'',
                          tr_error_code := Some ''TIMEOUT'', tr_completed_at := Some now \<rparr>"


text \<open>
  A fail-fast run of \<open>A \<rightarrow> {B, C}\<close>, \<open>C \<rightarrow> F\<close>: \<open>A\<close> has completed, \<open>B\<close> has just
  failed, \<open>C\<close> is still running, and a second run of \<open>B\<close> is pending.
\<close>

definition failfast_db :: db where
  "failfast_db =
     empty_db\<lparr> tasks := [example_task ''A'' [''B'', ''C''] 0 2, example_task ''B'' [] 0 2,
                          example_task ''C'' [''F''] 0 2, example_task ''F'' [] 0 2],
               pipeline_runs := [example_pipeline_run ''p1''
                                   [(''A'', [''B'', ''C'']), (''B'', []), (''C'', [''F'']), (''F'', [])]
                                   FailFast],
               task_runs := [example_completed_run ''a1'' ''A'' ''p1'' 10 ''o_a'',
                             example_run ''b1'' ''B'' (Some ''p1'') Failed,
                             example_run ''c1'' ''C'' (Some ''p1'') Running,
                             example_run ''b2'' ''B'' (Some ''p1'') Pending] \<rparr>"

definition after_failure :: db where
  "after_failure = handleTaskFailure 50 ''b1'' failfast_db"

definition sibling_completed :: db where
  "sibling_completed = markCompleted 60 ''c1'' ''o_c'' None None None after_failure"

text \<open>The sibling's run once it has completed.\<close>

definition sibling_run :: task_run where
  "sibling_run = (example_run ''c1'' ''C'' (Some ''p1'') Running)
                   \<lparr> tr_status := Completed, tr_output_path := Some ''o_c'', tr_output_size := None,
                     tr_assets := None, tr_logs_path := None, tr_completed_at := Some 60 \<rparr>"




text \<open>
  A service that registers two tasks, a stand-in for the digest and one for
  \<open>JSON.stringify\<close>.
\<close>

definition example_task_config :: "string \<Rightarrow> int option \<Rightarrow> task_config" where
  "example_task_config taskId retries =
     \<lparr> tc_id = taskId, tc_allowedNext = None, tc_timeout = None, tc_retries = retries,
       tc_retryBackoff = None, tc_retryDelayMs = None, tc_maxRetryDelayMs = None,
       tc_heartbeatIntervalMs = None, tc_concurrency = None, tc_priority = None,
       tc_idempotencyTTL = None, tc_description = None \<rparr>"

definition example_request :: register_service_request where
  "example_request =
     \<lparr> rq_serviceId = ''svc'', rq_version = ''1.0.0'', rq_baseUrl = ''http://svc'',
       rq_tasks = [example_task_config ''A'' None, example_task_config ''B'' (Some 5)] \<rparr>"

definition example_digest :: "string \<Rightarrow> string" where
  "example_digest content = rev content"

definition example_stringify :: "task_config \<Rightarrow> string" where
  "example_stringify task =
     ''id='' @ tc_id task @ (case tc_retries task of None \<Rightarrow> [] | Some n \<Rightarrow> '',retries'')"



text \<open>A request that lists the task id \<open>A\<close> twice, with two configurations.\<close>

definition duplicate_request :: register_service_request where
  "duplicate_request =
     \<lparr> rq_serviceId = ''svc'', rq_version = ''1.0.0'', rq_baseUrl = ''http://svc'',
       rq_tasks = [example_task_config ''A'' None, example_task_config ''A'' (Some 5)] \<rparr>"

section \<open>Basic facts\<close>

lemmas fixtures = example_task_def example_run_def example_completed_run_def
  example_pipeline_run_def empty_db_def example_cache_row_def example_enqueue_options_def
  join_snapshot_def join_db_def

lemma enqueue_no_key:
  assumes "select_task (qo_taskId options) d = Some task" and "qo_idempotencyKey options = None"
  shows "enqueue now nid options d =
           (Inr \<lparr> qt_runId = ''trun_'' @ nid, qt_taskId = qo_taskId options, qt_status = Pending,
                  qt_inputPath = input_path_for (qo_pipelineRunId options) (''trun_'' @ nid) \<rparr>,
            d\<lparr> task_runs := task_runs d @ [new_task_run now (''trun_'' @ nid) options task] \<rparr>)"
  using assms by (simp add: enqueue_def truthy_def)

lemma queueNextTasks_skip:
  assumes "\<not> isJoinTaskReady nextTaskId (the (tr_pipeline_run_id taskRun)) d"
  shows "queueNextTasks now gen k taskRun (nextTaskId # rest) queued d =
           queueNextTasks now gen k taskRun rest queued d"
  using assms by simp

lemma queueNextTasks_ready:
  assumes "isJoinTaskReady nextTaskId (the (tr_pipeline_run_id taskRun)) d"
    and "select_task nextTaskId d = Some task"
  shows "queueNextTasks now gen k taskRun (nextTaskId # rest) queued d =
           queueNextTasks now gen (Suc k) taskRun rest (queued @ [''trun_'' @ gen k])
             (d\<lparr> task_runs := task_runs d @
                   [new_task_run now (''trun_'' @ gen k)
                      (downstream_options taskRun nextTaskId d) task] \<rparr>)"
proof -
  have "enqueue now (gen k) (downstream_options taskRun nextTaskId d) d =
          (Inr \<lparr> qt_runId = ''trun_'' @ gen k,
                 qt_taskId = qo_taskId (downstream_options taskRun nextTaskId d),
                 qt_status = Pending,
                 qt_inputPath = input_path_for (qo_pipelineRunId (downstream_options taskRun nextTaskId d))
                                  (''trun_'' @ gen k) \<rparr>,
           d\<lparr> task_runs := task_runs d @
                 [new_task_run now (''trun_'' @ gen k) (downstream_options taskRun nextTaskId d) task] \<rparr>)"
    using assms(2) by (intro enqueue_no_key) (simp_all add: downstream_options_def)
  then show ?thesis
    using assms(1) by simp
qed

lemma queueNextTasks_unregistered:
  assumes "isJoinTaskReady nextTaskId (the (tr_pipeline_run_id taskRun)) d"
    and "select_task nextTaskId d = None"
  shows "queueNextTasks now gen k taskRun (nextTaskId # rest) queued d =
           (Inl (TaskNotFound nextTaskId), d)"
  using assms by (simp add: enqueue_def downstream_options_def)

lemma queueDownstreamTasks_all_next:
  assumes "select_task_run runId d = Some taskRun"
    and "truthy (tr_pipeline_run_id taskRun)"
    and "select_task (tr_task_id taskRun) d = Some task"
    and "t_allowed_next task \<noteq> []"
  shows "queueDownstreamTasks now gen runId None d =
           queueNextTasks now gen 0 taskRun (t_allowed_next task) [] d"
  using assms by (simp add: queueDownstreamTasks_def)

lemma join_db_tables [simp]:
  "task_runs (join_db rs) = rs"
  "tasks (join_db rs) = [example_task ''B'' [''D''] 0 2, example_task ''C'' [''D''] 0 2,
                          example_task ''D'' [] 0 2]"
  "pipeline_runs (join_db rs) = [example_pipeline_run ''p1'' join_snapshot Continue]"
  "(join_db rs)\<lparr> task_runs := rs' \<rparr> = join_db rs'"
  by (simp_all add: join_db_def empty_db_def)

lemma example_task_fields [simp]:
  "t_id (example_task i nx c r) = i"
  "t_allowed_next (example_task i nx c r) = nx"
  "t_concurrency (example_task i nx c r) = c"
  "t_retries (example_task i nx c r) = r"
  "t_retry_backoff (example_task i nx c r) = Exponential"
  "t_retry_delay_ms (example_task i nx c r) = 100"
  "t_max_retry_delay_ms (example_task i nx c r) = 10000"
  "t_heartbeat_interval_ms (example_task i nx c r) = 60000"
  "t_priority (example_task i nx c r) = 100"
  by (simp_all add: example_task_def)

lemma example_run_fields [simp]:
  "tr_id (example_run i t p s) = i"
  "tr_task_id (example_run i t p s) = t"
  "tr_pipeline_run_id (example_run i t p s) = p"
  "tr_status (example_run i t p s) = s"
  "tr_attempt (example_run i t p s) = 1"
  "tr_max_retries (example_run i t p s) = 2"
  "tr_priority (example_run i t p s) = 100"
  "tr_created_at (example_run i t p s) = 0"
  "tr_scheduled_for (example_run i t p s) = None"
  "tr_output_path (example_run i t p s) = None"
  "tr_completed_at (example_run i t p s) = None"
  "tr_previous_attempts (example_run i t p s) = []"
  by (simp_all add: example_run_def)

lemma example_completed_run_fields [simp]:
  "tr_id (example_completed_run i t p c out) = i"
  "tr_task_id (example_completed_run i t p c out) = t"
  "tr_pipeline_run_id (example_completed_run i t p c out) = Some p"
  "tr_status (example_completed_run i t p c out) = Completed"
  "tr_priority (example_completed_run i t p c out) = 100"
  "tr_output_path (example_completed_run i t p c out) = Some out"
  "tr_completed_at (example_completed_run i t p c out) = Some c"
  "tr_assets (example_completed_run i t p c out) = None"
  by (simp_all add: example_completed_run_def example_run_def)

lemma example_pipeline_run_fields [simp]:
  "pr_id (example_pipeline_run p s f) = p"
  "pr_structure_snapshot (example_pipeline_run p s f) = s"
  "pr_failure_mode (example_pipeline_run p s f) = f"
  "pr_status (example_pipeline_run p s f) = PipelineRunning"
  by (simp_all add: example_pipeline_run_def)

lemma new_task_run_fields [simp]:
  "tr_id (new_task_run now runId options task) = runId"
  "tr_task_id (new_task_run now runId options task) = qo_taskId options"
  "tr_pipeline_run_id (new_task_run now runId options task) = qo_pipelineRunId options"
  "tr_status (new_task_run now runId options task) = Pending"
  "tr_attempt (new_task_run now runId options task) = 1"
  "tr_max_retries (new_task_run now runId options task) = t_retries task"
  "tr_previous_attempts (new_task_run now runId options task) = []"
  "tr_scheduled_for (new_task_run now runId options task) = qo_scheduledFor options"
  "tr_created_at (new_task_run now runId options task) = now"
  "tr_upstream_refs (new_task_run now runId options task) = nullish (qo_upstreamRefs options) Map.empty"
  by (simp_all add: new_task_run_def nullish_def)

lemma join_predecessors: "predecessors_of join_snapshot ''D'' = [''B'', ''C'']"
  by (simp add: predecessors_of_def join_snapshot_def)

lemma join_select_pipeline_run:
  "select_pipeline_run ''p1'' (join_db rs) = Some (example_pipeline_run ''p1'' join_snapshot Continue)"
  by (simp add: select_pipeline_run_def)

lemma join_select_task:
  "select_task ''B'' (join_db rs) = Some (example_task ''B'' [''D''] 0 2)"
  "select_task ''C'' (join_db rs) = Some (example_task ''C'' [''D''] 0 2)"
  "select_task ''D'' (join_db rs) = Some (example_task ''D'' [] 0 2)"
  by (simp_all add: select_task_def)

lemma to_pending_task_fields [simp]:
  "pt_runId (to_pending_task r) = tr_id r"
  "pt_taskId (to_pending_task r) = tr_task_id r"
  "pt_attempt (to_pending_task r) = tr_attempt r"
  "pt_maxRetries (to_pending_task r) = tr_max_retries r"
  "pt_previousAttempts (to_pending_task r) = tr_previous_attempts r"
  by (simp_all add: to_pending_task_def)

lemma linear_db_tables [simp]:
  "task_runs (linear_db rs) = rs"
  "tasks (linear_db rs) = [example_task ''A'' [''B''] 0 2, example_task ''B'' [] 0 2]"
  "pipeline_runs (linear_db rs) = [example_pipeline_run ''p1'' linear_snapshot Continue]"
  "(linear_db rs)\<lparr> task_runs := rs' \<rparr> = linear_db rs'"
  by (simp_all add: linear_db_def empty_db_def)

text \<open>An update that keeps the key column does not change which row a select finds.\<close>

lemma find_map_same_key:
  assumes "\<And>x. key (f x) = key x"
  shows "find (\<lambda>x. key x = k) (map f xs) = map_option f (find (\<lambda>x. key x = k) xs)"
  using assms by (induction xs) simp_all

section \<open>Join readiness (C1)\<close>

lemma b_twice_none_of_c: "completed_runs_of ''p1'' [''C''] (join_db b_twice) = []"
  by (simp add: completed_runs_of_def b_twice_def)

lemma b_twice_count: "length (completed_runs_of ''p1'' [''B'', ''C''] (join_db b_twice)) = 2"
  by (simp add: completed_runs_of_def b_twice_def)

lemma b_twice_ready: "isJoinTaskReady ''D'' ''p1'' (join_db b_twice)"
  by (simp add: isJoinTaskReady_def join_select_pipeline_run join_predecessors b_twice_count)

lemma b_twice_select:
  "select_task_run ''b2'' (join_db b_twice) = Some (example_completed_run ''b2'' ''B'' ''p1'' 20 ''o2'')"
  by (simp add: select_task_run_def b_twice_def)

lemma b_twice_unfold:
  "queueDownstreamTasks 30 example_nanoid ''b2'' None (join_db b_twice) =
     (Inr [''trun_'' @ example_nanoid 0],
      (join_db b_twice)\<lparr> task_runs := task_runs (join_db b_twice) @
         [new_task_run 30 (''trun_'' @ example_nanoid 0)
            (downstream_options (example_completed_run ''b2'' ''B'' ''p1'' 20 ''o2'') ''D''
               (join_db b_twice))
            (example_task ''D'' [] 0 2)] \<rparr>)"
proof -
  let ?b2 = "example_completed_run ''b2'' ''B'' ''p1'' 20 ''o2''"
  have "queueDownstreamTasks 30 example_nanoid ''b2'' None (join_db b_twice)
          = queueNextTasks 30 example_nanoid 0 ?b2 [''D''] [] (join_db b_twice)"
    using queueDownstreamTasks_all_next [OF b_twice_select, of "example_task ''B'' [''D''] 0 2"]
    by (simp add: truthy_def join_select_task)
  also have "\<dots> = queueNextTasks 30 example_nanoid (Suc 0) ?b2 [] ([] @ [''trun_'' @ example_nanoid 0])
                     ((join_db b_twice)\<lparr> task_runs := task_runs (join_db b_twice) @
                         [new_task_run 30 (''trun_'' @ example_nanoid 0)
                            (downstream_options ?b2 ''D'' (join_db b_twice))
                            (example_task ''D'' [] 0 2)] \<rparr>)"
    by (rule queueNextTasks_ready) (simp_all add: b_twice_ready join_select_task)
  finally show ?thesis by simp
qed

lemma b_twice_queue:
  "fst (queueDownstreamTasks 30 example_nanoid ''b2'' None (join_db b_twice)) = Inr [''trun_x'']"
  unfolding b_twice_unfold by (simp add: example_nanoid_def)

lemma b_twice_rows:
  "map tr_task_id (task_runs (snd (queueDownstreamTasks 30 example_nanoid ''b2'' None (join_db b_twice))))
     = [''B'', ''B'', ''C'', ''D'']"
  unfolding b_twice_unfold by (simp add: b_twice_def downstream_options_def)

lemma all_completed_not_ready: "\<not> isJoinTaskReady ''D'' ''p1'' (join_db all_completed)"
  by (simp add: isJoinTaskReady_def join_select_pipeline_run join_predecessors
        completed_runs_of_def all_completed_def)

lemma all_completed_each:
  "completed_runs_of ''p1'' [''B''] (join_db all_completed) \<noteq> []
   \<and> completed_runs_of ''p1'' [''C''] (join_db all_completed) \<noteq> []"
  by (simp add: completed_runs_of_def all_completed_def)

text \<open>
  C1. The claim: a task with two or more predecessors in the snapshot is enqueued by
  \<open>queueDownstreamTasks\<close> exactly when every predecessor has a completed run in the
  pipeline run, readiness being per distinct predecessor and not a count of rows. The
  code compares the number of completed rows of all predecessors with the number of
  predecessors. In pipeline run \<open>p1\<close>, where \<open>B\<close> and \<open>C\<close> precede \<open>D\<close>: with two
  completed runs of \<open>B\<close> and none of \<open>C\<close> (which is still running), the join is ready
  and the completion of the second run of \<open>B\<close> enqueues \<open>D\<close>; with two completed runs
  of \<open>B\<close> and one of \<open>C\<close>, every predecessor has completed and the join is not ready.
\<close>

theorem join_readiness_counts_rows:
  "predecessors_of join_snapshot ''D'' = [''B'', ''C'']
   \<and> completed_runs_of ''p1'' [''C''] (join_db b_twice) = []
   \<and> isJoinTaskReady ''D'' ''p1'' (join_db b_twice)
   \<and> fst (queueDownstreamTasks 30 example_nanoid ''b2'' None (join_db b_twice)) = Inr [''trun_x'']
   \<and> map tr_task_id
         (task_runs (snd (queueDownstreamTasks 30 example_nanoid ''b2'' None (join_db b_twice))))
       = [''B'', ''B'', ''C'', ''D'']
   \<and> (completed_runs_of ''p1'' [''B''] (join_db all_completed) \<noteq> []
        \<and> completed_runs_of ''p1'' [''C''] (join_db all_completed) \<noteq> [])
   \<and> \<not> isJoinTaskReady ''D'' ''p1'' (join_db all_completed)"
  by (intro conjI join_predecessors b_twice_none_of_c b_twice_ready b_twice_queue b_twice_rows
        all_completed_each all_completed_not_ready)

section \<open>Fail-fast cancellation (C2)\<close>

lemma update_pipeline_run_status_tables [simp]:
  "tasks (update_pipeline_run_status now p st d) = tasks d"
  "task_runs (update_pipeline_run_status now p st d) = task_runs d"
  "idempotency_cache (update_pipeline_run_status now p st d) = idempotency_cache d"
  "dlq (update_pipeline_run_status now p st d) = dlq d"
  by (simp_all add: update_pipeline_run_status_def)

lemma update_pipeline_run_status_task_runs_update:
  "(update_pipeline_run_status now p st d)\<lparr> task_runs := rs \<rparr>
     = update_pipeline_run_status now p st (d\<lparr> task_runs := rs \<rparr>)"
  by (simp add: update_pipeline_run_status_def)

lemma select_pipeline_run_update:
  "select_pipeline_run k (update_pipeline_run_status now p st d) =
     map_option (\<lambda>r. if pr_id r = p then r\<lparr> pr_status := st, pr_completed_at := Some now \<rparr> else r)
       (select_pipeline_run k d)"
  unfolding select_pipeline_run_def update_pipeline_run_status_def
  by (simp add: find_map_same_key [where key = pr_id])

lemma completed_runs_of_update [simp]:
  "completed_runs_of q ps (update_pipeline_run_status now p st d) = completed_runs_of q ps d"
  by (simp add: completed_runs_of_def)

lemma isJoinTaskReady_update [simp]:
  "isJoinTaskReady t q (update_pipeline_run_status now p st d) = isJoinTaskReady t q d"
  by (cases "select_pipeline_run q d")
     (simp_all add: isJoinTaskReady_def select_pipeline_run_update Let_def)

lemma buildUpstreamRefs_update [simp]:
  "buildUpstreamRefs t q (update_pipeline_run_status now p st d) = buildUpstreamRefs t q d"
  by (cases "select_pipeline_run q d")
     (simp_all add: buildUpstreamRefs_def select_pipeline_run_update Let_def)

lemma downstream_options_update [simp]:
  "downstream_options taskRun t (update_pipeline_run_status now p st d) = downstream_options taskRun t d"
  by (simp add: downstream_options_def)

lemma select_task_update [simp]:
  "select_task k (update_pipeline_run_status now p st d) = select_task k d"
  by (simp add: select_task_def)

lemma select_task_run_update [simp]:
  "select_task_run k (update_pipeline_run_status now p st d) = select_task_run k d"
  by (simp add: select_task_run_def)

lemma checkIdempotency_update [simp]:
  "checkIdempotency t k (update_pipeline_run_status now p st d) = checkIdempotency t k d"
  by (simp add: checkIdempotency_def)

lemma enqueue_update:
  "enqueue t nid options (update_pipeline_run_status now p st d) =
     (fst (enqueue t nid options d), update_pipeline_run_status now p st (snd (enqueue t nid options d)))"
  by (simp add: enqueue_def update_pipeline_run_status_task_runs_update split: option.split)

lemma queueNextTasks_update:
  "queueNextTasks t gen k taskRun nexts queued (update_pipeline_run_status now p st d) =
     (fst (queueNextTasks t gen k taskRun nexts queued d),
      update_pipeline_run_status now p st (snd (queueNextTasks t gen k taskRun nexts queued d)))"
proof (induction nexts arbitrary: k queued d)
  case Nil
  show ?case by simp
next
  case (Cons nextTaskId rest)
  show ?case
  proof (cases "isJoinTaskReady nextTaskId (the (tr_pipeline_run_id taskRun)) d")
    case False
    then show ?thesis using Cons.IH [of k queued d] by simp
  next
    case True
    obtain res d' where e: "enqueue t (gen k) (downstream_options taskRun nextTaskId d) d = (res, d')"
      by (cases "enqueue t (gen k) (downstream_options taskRun nextTaskId d) d")
    show ?thesis
    proof (cases res)
      case (Inl err)
      with True e show ?thesis by (simp add: enqueue_update)
    next
      case (Inr queuedTask)
      with True e Cons.IH [of "Suc k" "queued @ [qt_runId queuedTask]" d'] show ?thesis
        by (simp add: enqueue_update)
    qed
  qed
qed

lemma checkPipelineCompletion_task_runs [simp]:
  "task_runs (checkPipelineCompletion now q d) = task_runs d"
  by (simp add: checkPipelineCompletion_def Let_def split: option.split)

lemma queueDownstreamTasks_ignores_status:
  "fst (queueDownstreamTasks t gen runId selectedNext (update_pipeline_run_status now p st d))
     = fst (queueDownstreamTasks t gen runId selectedNext d)
   \<and> task_runs (snd (queueDownstreamTasks t gen runId selectedNext (update_pipeline_run_status now p st d)))
     = task_runs (snd (queueDownstreamTasks t gen runId selectedNext d))"
  by (simp add: queueDownstreamTasks_def queueNextTasks_update Let_def split: option.split)

text \<open>
  Two status updates: the later one wins on the same pipeline run, and updates of two
  pipeline runs commute.
\<close>

lemma update_pipeline_run_status_twice:
  "update_pipeline_run_status now p st (update_pipeline_run_status t p st' d)
     = update_pipeline_run_status now p st d"
  by (simp add: update_pipeline_run_status_def comp_def)

lemma update_pipeline_run_status_commute:
  assumes "q \<noteq> p"
  shows "update_pipeline_run_status t q st' (update_pipeline_run_status now p st d)
           = update_pipeline_run_status now p st (update_pipeline_run_status t q st' d)"
  using assms by (simp add: update_pipeline_run_status_def comp_def)

text \<open>
  \<open>checkPipelineCompletion\<close> reads the status: a pipeline run that is not running is
  left as it is.
\<close>

lemma checkPipelineCompletion_after_update:
  assumes "st \<noteq> PipelineRunning"
  shows "checkPipelineCompletion t q (update_pipeline_run_status now p st d)
           = update_pipeline_run_status now p st (checkPipelineCompletion t q d)"
proof (cases "select_pipeline_run q d")
  case None
  then show ?thesis
    by (simp add: checkPipelineCompletion_def select_pipeline_run_update)
next
  case (Some run)
  then have id: "pr_id run = q"
    by (auto simp: select_pipeline_run_def find_Some_iff)
  show ?thesis
  proof (cases "q = p")
    case True
    with Some id assms show ?thesis
      by (simp add: checkPipelineCompletion_def select_pipeline_run_update Let_def
            update_pipeline_run_status_twice)
  next
    case False
    with Some id show ?thesis
      by (simp add: checkPipelineCompletion_def select_pipeline_run_update Let_def
            update_pipeline_run_status_commute)
  qed
qed

text \<open>
  \<open>queueDownstreamTasks\<close> on a database in which a pipeline run has been given a status
  other than running: the result and every table are what they are without that status,
  and the pipeline run keeps the status.
\<close>

lemma queueDownstreamTasks_after_update:
  assumes "st \<noteq> PipelineRunning"
  shows "queueDownstreamTasks t gen runId selectedNext (update_pipeline_run_status now p st d)
           = (fst (queueDownstreamTasks t gen runId selectedNext d),
              update_pipeline_run_status now p st
                (snd (queueDownstreamTasks t gen runId selectedNext d)))"
  using assms
  by (simp add: queueDownstreamTasks_def queueNextTasks_update Let_def
        checkPipelineCompletion_after_update split: option.split)

lemma handleTaskFailure_fail_fast:
  assumes "select_task_run taskRunId d = Some taskRun"
    and "tr_pipeline_run_id taskRun = Some p" and "p \<noteq> []"
    and "select_pipeline_run p d = Some pipelineRun"
    and "pr_failure_mode pipelineRun = FailFast"
  shows "handleTaskFailure now taskRunId d =
           update_pipeline_run_status now p PipelineFailed (cancel_pending_of_run now p d)"
  using assms by (simp add: handleTaskFailure_def truthy_def)

lemma markCompleted_update:
  "markCompleted t runId out sz a lg (update_pipeline_run_status now p st d)
     = update_pipeline_run_status now p st (markCompleted t runId out sz a lg d)"
  by (simp add: markCompleted_def update_run_def update_pipeline_run_status_def)

lemma failfast_tables [simp]:
  "tasks failfast_db = [example_task ''A'' [''B'', ''C''] 0 2, example_task ''B'' [] 0 2,
                        example_task ''C'' [''F''] 0 2, example_task ''F'' [] 0 2]"
  "task_runs failfast_db = [example_completed_run ''a1'' ''A'' ''p1'' 10 ''o_a'',
                            example_run ''b1'' ''B'' (Some ''p1'') Failed,
                            example_run ''c1'' ''C'' (Some ''p1'') Running,
                            example_run ''b2'' ''B'' (Some ''p1'') Pending]"
  "pipeline_runs failfast_db =
     [example_pipeline_run ''p1'' [(''A'', [''B'', ''C'']), (''B'', []), (''C'', [''F'']), (''F'', [])]
        FailFast]"
  by (simp_all add: failfast_db_def empty_db_def)

lemma failfast_selects:
  "select_task_run ''b1'' failfast_db = Some (example_run ''b1'' ''B'' (Some ''p1'') Failed)"
  "select_pipeline_run ''p1'' failfast_db =
     Some (example_pipeline_run ''p1''
             [(''A'', [''B'', ''C'']), (''B'', []), (''C'', [''F'']), (''F'', [])] FailFast)"
  by (simp_all add: select_task_run_def select_pipeline_run_def)

lemma after_failure_eq:
  "after_failure = update_pipeline_run_status 50 ''p1'' PipelineFailed
                     (cancel_pending_of_run 50 ''p1'' failfast_db)"
  unfolding after_failure_def
  by (rule handleTaskFailure_fail_fast [OF failfast_selects(1) _ _ failfast_selects(2)]) simp_all

lemma after_failure_rows:
  "map tr_status (task_runs after_failure) = [Completed, Failed, Running, Cancelled]"
  by (simp add: after_failure_eq cancel_pending_of_run_def)

lemma after_failure_run:
  "map pr_status (pipeline_runs after_failure) = [PipelineFailed]"
  by (simp add: after_failure_eq cancel_pending_of_run_def update_pipeline_run_status_def)

lemma sibling_completed_eq:
  "sibling_completed = update_pipeline_run_status 50 ''p1'' PipelineFailed
                         (markCompleted 60 ''c1'' ''o_c'' None None None
                            (cancel_pending_of_run 50 ''p1'' failfast_db))"
  by (simp add: sibling_completed_def after_failure_eq markCompleted_update)

lemma sibling_rows:
  "task_runs (markCompleted 60 ''c1'' ''o_c'' None None None (cancel_pending_of_run 50 ''p1'' failfast_db))
     = [example_completed_run ''a1'' ''A'' ''p1'' 10 ''o_a'',
        example_run ''b1'' ''B'' (Some ''p1'') Failed,
        sibling_run,
        (example_run ''b2'' ''B'' (Some ''p1'') Pending)
          \<lparr> tr_status := Cancelled, tr_error := Some ''Pipeline failed in fail-fast mode'',
            tr_completed_at := Some 50 \<rparr>]"
  by (simp add: markCompleted_def update_run_def cancel_pending_of_run_def sibling_run_def)

lemma sibling_run_fields [simp]:
  "tr_id sibling_run = ''c1''" "tr_task_id sibling_run = ''C''"
  "tr_pipeline_run_id sibling_run = Some ''p1''" "tr_status sibling_run = Completed"
  by (simp_all add: sibling_run_def)

lemma sibling_unmarked_facts:
  "select_task_run ''c1''
     (markCompleted 60 ''c1'' ''o_c'' None None None (cancel_pending_of_run 50 ''p1'' failfast_db))
     = Some sibling_run"
  "select_task k
     (markCompleted 60 ''c1'' ''o_c'' None None None (cancel_pending_of_run 50 ''p1'' failfast_db))
     = select_task k failfast_db"
  "isJoinTaskReady ''F'' ''p1''
     (markCompleted 60 ''c1'' ''o_c'' None None None (cancel_pending_of_run 50 ''p1'' failfast_db))"
proof -
  show "select_task_run ''c1''
     (markCompleted 60 ''c1'' ''o_c'' None None None (cancel_pending_of_run 50 ''p1'' failfast_db))
     = Some sibling_run"
    unfolding select_task_run_def sibling_rows by simp
  show "select_task k
     (markCompleted 60 ''c1'' ''o_c'' None None None (cancel_pending_of_run 50 ''p1'' failfast_db))
     = select_task k failfast_db"
    by (simp add: select_task_def markCompleted_def update_run_def cancel_pending_of_run_def)
  have "select_pipeline_run ''p1''
     (markCompleted 60 ''c1'' ''o_c'' None None None (cancel_pending_of_run 50 ''p1'' failfast_db))
     = select_pipeline_run ''p1'' failfast_db"
    by (simp add: select_pipeline_run_def markCompleted_def update_run_def cancel_pending_of_run_def)
  then show "isJoinTaskReady ''F'' ''p1''
     (markCompleted 60 ''c1'' ''o_c'' None None None (cancel_pending_of_run 50 ''p1'' failfast_db))"
    by (simp add: isJoinTaskReady_def failfast_selects predecessors_of_def)
qed

lemma sibling_unmarked_queue:
  "queueDownstreamTasks 60 example_nanoid ''c1'' None
     (markCompleted 60 ''c1'' ''o_c'' None None None (cancel_pending_of_run 50 ''p1'' failfast_db)) =
   (Inr [''trun_'' @ example_nanoid 0],
    (markCompleted 60 ''c1'' ''o_c'' None None None (cancel_pending_of_run 50 ''p1'' failfast_db))
      \<lparr> task_runs :=
          task_runs (markCompleted 60 ''c1'' ''o_c'' None None None
                       (cancel_pending_of_run 50 ''p1'' failfast_db)) @
          [new_task_run 60 (''trun_'' @ example_nanoid 0)
             (downstream_options sibling_run ''F''
                (markCompleted 60 ''c1'' ''o_c'' None None None
                   (cancel_pending_of_run 50 ''p1'' failfast_db)))
             (example_task ''F'' [] 0 2)] \<rparr>)"
proof -
  let ?d = "markCompleted 60 ''c1'' ''o_c'' None None None (cancel_pending_of_run 50 ''p1'' failfast_db)"
  have c: "select_task ''C'' failfast_db = Some (example_task ''C'' [''F''] 0 2)"
    and f: "select_task ''F'' failfast_db = Some (example_task ''F'' [] 0 2)"
    by (simp_all add: select_task_def)
  have "queueDownstreamTasks 60 example_nanoid ''c1'' None ?d
          = queueNextTasks 60 example_nanoid 0 sibling_run [''F''] [] ?d"
    using queueDownstreamTasks_all_next [OF sibling_unmarked_facts(1), of "example_task ''C'' [''F''] 0 2"]
    by (simp add: truthy_def sibling_unmarked_facts(2) c)
  also have "\<dots> = queueNextTasks 60 example_nanoid (Suc 0) sibling_run [] ([] @ [''trun_'' @ example_nanoid 0])
                     (?d\<lparr> task_runs := task_runs ?d @
                         [new_task_run 60 (''trun_'' @ example_nanoid 0)
                            (downstream_options sibling_run ''F'' ?d) (example_task ''F'' [] 0 2)] \<rparr>)"
    by (rule queueNextTasks_ready) (simp_all add: sibling_unmarked_facts f)
  finally show ?thesis by simp
qed

lemma sibling_queue_result:
  "fst (queueDownstreamTasks 60 example_nanoid ''c1'' None sibling_completed) = Inr [''trun_x'']"
  unfolding sibling_completed_eq
  by (simp add: queueDownstreamTasks_ignores_status sibling_unmarked_queue example_nanoid_def)

lemma sibling_queue_rows:
  "map (\<lambda>r. (tr_task_id r, tr_status r))
     (task_runs (snd (queueDownstreamTasks 60 example_nanoid ''c1'' None sibling_completed)))
   = [(''A'', Completed), (''B'', Failed), (''C'', Completed), (''B'', Cancelled), (''F'', Pending)]"
  unfolding sibling_completed_eq
  by (simp add: queueDownstreamTasks_ignores_status sibling_unmarked_queue sibling_rows
        downstream_options_def)

lemma sibling_run_failed:
  "map pr_status (pipeline_runs sibling_completed) = [PipelineFailed]"
  by (simp add: sibling_completed_eq update_pipeline_run_status_def markCompleted_def update_run_def
        cancel_pending_of_run_def)

text \<open>
  C2, as stated: after a failure under fail-fast, no downstream task of a sibling that was
  still running is ever enqueued in the pipeline run. In a fail-fast run of
  \<open>A \<rightarrow> {B, C}\<close>, \<open>C \<rightarrow> F\<close>, the run of \<open>B\<close> fails while the run of \<open>C\<close> is running:
  \<open>handleTaskFailure\<close> cancels the pending run and marks the pipeline run failed, the
  run of \<open>C\<close> then completes, and \<open>queueDownstreamTasks\<close> enqueues a pending run of \<open>F\<close>
  in the failed pipeline run.
\<close>

theorem fail_fast_downstream_counterexample:
  "map tr_status (task_runs after_failure) = [Completed, Failed, Running, Cancelled]
   \<and> map pr_status (pipeline_runs after_failure) = [PipelineFailed]
   \<and> map pr_status (pipeline_runs sibling_completed) = [PipelineFailed]
   \<and> fst (queueDownstreamTasks 60 example_nanoid ''c1'' None sibling_completed) = Inr [''trun_x'']
   \<and> map (\<lambda>r. (tr_task_id r, tr_status r))
         (task_runs (snd (queueDownstreamTasks 60 example_nanoid ''c1'' None sibling_completed)))
       = [(''A'', Completed), (''B'', Failed), (''C'', Completed), (''B'', Cancelled), (''F'', Pending)]"
  by (intro conjI after_failure_rows after_failure_run sibling_run_failed sibling_queue_result
        sibling_queue_rows)

text \<open>
  C2, amended: under failure mode fail-fast, \<open>handleTaskFailure\<close> for a failed run of a
  pipeline run cancels exactly the pending task runs of that pipeline run (status
  cancelled, error \<open>Pipeline failed in fail-fast mode\<close>, \<open>completed_at\<close> now), leaves
  every other task run as it is, running ones included, and marks the pipeline run
  failed. Already-running tasks complete normally, and when such a sibling completes
  after the failure \<open>queueDownstreamTasks\<close> enqueues its downstream tasks all the same:
  it returns the same run ids and leaves the same database as it would if the pending
  runs had been cancelled and the pipeline run had not been marked failed, except that
  the pipeline run keeps the status failed. \<open>checkPipelineCompletion\<close>, which
  \<open>queueDownstreamTasks\<close> calls at the end of a branch, reads the status and leaves a
  pipeline run that is not running as it is, so the failed run stays failed; the status
  is not read where downstream tasks are enqueued.
\<close>

theorem fail_fast_cancels_pending_only:
  assumes run: "select_task_run taskRunId d = Some taskRun"
    and prid: "tr_pipeline_run_id taskRun = Some p" "p \<noteq> []"
    and prun: "select_pipeline_run p d = Some pipelineRun"
    and mode: "pr_failure_mode pipelineRun = FailFast"
  shows "length (task_runs (handleTaskFailure now taskRunId d)) = length (task_runs d)
     \<and> (\<forall>i < length (task_runs d).
          (tr_pipeline_run_id (task_runs d ! i) = Some p \<and> tr_status (task_runs d ! i) = Pending
             \<longrightarrow> task_runs (handleTaskFailure now taskRunId d) ! i
                   = (task_runs d ! i)\<lparr> tr_status := Cancelled,
                                         tr_error := Some ''Pipeline failed in fail-fast mode'',
                                         tr_completed_at := Some now \<rparr>)
        \<and> (tr_pipeline_run_id (task_runs d ! i) \<noteq> Some p \<or> tr_status (task_runs d ! i) \<noteq> Pending
             \<longrightarrow> task_runs (handleTaskFailure now taskRunId d) ! i = task_runs d ! i))
     \<and> map_option pr_status (select_pipeline_run p (handleTaskFailure now taskRunId d))
         = Some PipelineFailed
     \<and> (\<forall>t gen sibling out sz a lg selectedNext.
           fst (queueDownstreamTasks t gen sibling selectedNext
                  (markCompleted t sibling out sz a lg (handleTaskFailure now taskRunId d)))
             = fst (queueDownstreamTasks t gen sibling selectedNext
                      (markCompleted t sibling out sz a lg (cancel_pending_of_run now p d)))
         \<and> task_runs (snd (queueDownstreamTasks t gen sibling selectedNext
                  (markCompleted t sibling out sz a lg (handleTaskFailure now taskRunId d))))
             = task_runs (snd (queueDownstreamTasks t gen sibling selectedNext
                      (markCompleted t sibling out sz a lg (cancel_pending_of_run now p d))))
         \<and> snd (queueDownstreamTasks t gen sibling selectedNext
                  (markCompleted t sibling out sz a lg (handleTaskFailure now taskRunId d)))
             = update_pipeline_run_status now p PipelineFailed
                 (snd (queueDownstreamTasks t gen sibling selectedNext
                         (markCompleted t sibling out sz a lg (cancel_pending_of_run now p d)))))
     \<and> (\<forall>t. checkPipelineCompletion t p (handleTaskFailure now taskRunId d)
               = handleTaskFailure now taskRunId d)"
proof -
  have eq: "handleTaskFailure now taskRunId d =
              update_pipeline_run_status now p PipelineFailed (cancel_pending_of_run now p d)"
    using assms by (rule handleTaskFailure_fail_fast)
  have rows: "task_runs (handleTaskFailure now taskRunId d) =
                map (\<lambda>r. if tr_pipeline_run_id r = Some p \<and> tr_status r = Pending
                          then r\<lparr> tr_status := Cancelled,
                                   tr_error := Some ''Pipeline failed in fail-fast mode'',
                                   tr_completed_at := Some now \<rparr>
                          else r) (task_runs d)"
    by (simp add: eq cancel_pending_of_run_def)
  have "select_pipeline_run p (cancel_pending_of_run now p d) = Some pipelineRun"
    using prun by (simp add: select_pipeline_run_def cancel_pending_of_run_def)
  moreover from prun have "pr_id pipelineRun = p"
    by (auto simp: select_pipeline_run_def find_Some_iff)
  ultimately have failed:
    "map_option pr_status (select_pipeline_run p (handleTaskFailure now taskRunId d))
       = Some PipelineFailed"
    by (simp add: eq select_pipeline_run_update)
  have queue: "fst (queueDownstreamTasks t gen sibling selectedNext
                  (markCompleted t sibling out sz a lg (handleTaskFailure now taskRunId d)))
             = fst (queueDownstreamTasks t gen sibling selectedNext
                      (markCompleted t sibling out sz a lg (cancel_pending_of_run now p d)))
         \<and> task_runs (snd (queueDownstreamTasks t gen sibling selectedNext
                  (markCompleted t sibling out sz a lg (handleTaskFailure now taskRunId d))))
             = task_runs (snd (queueDownstreamTasks t gen sibling selectedNext
                      (markCompleted t sibling out sz a lg (cancel_pending_of_run now p d))))"
    for t gen sibling out sz a lg selectedNext
    unfolding eq markCompleted_update by (rule queueDownstreamTasks_ignores_status)
  have whole: "snd (queueDownstreamTasks t gen sibling selectedNext
                  (markCompleted t sibling out sz a lg (handleTaskFailure now taskRunId d)))
             = update_pipeline_run_status now p PipelineFailed
                 (snd (queueDownstreamTasks t gen sibling selectedNext
                         (markCompleted t sibling out sz a lg (cancel_pending_of_run now p d))))"
    for t gen sibling out sz a lg selectedNext
    unfolding eq markCompleted_update by (simp add: queueDownstreamTasks_after_update)
  have kept: "checkPipelineCompletion t p (handleTaskFailure now taskRunId d)
                = handleTaskFailure now taskRunId d" for t
    using failed by (auto simp: checkPipelineCompletion_def split: option.split)
  show ?thesis
  proof (intro conjI allI impI)
    show "length (task_runs (handleTaskFailure now taskRunId d)) = length (task_runs d)"
      by (simp add: rows)
  next
    fix i
    assume "i < length (task_runs d)"
      and "tr_pipeline_run_id (task_runs d ! i) = Some p \<and> tr_status (task_runs d ! i) = Pending"
    then show "task_runs (handleTaskFailure now taskRunId d) ! i
                   = (task_runs d ! i)\<lparr> tr_status := Cancelled,
                                         tr_error := Some ''Pipeline failed in fail-fast mode'',
                                         tr_completed_at := Some now \<rparr>"
      by (simp add: rows)
  next
    fix i
    assume "i < length (task_runs d)"
      and "tr_pipeline_run_id (task_runs d ! i) \<noteq> Some p \<or> tr_status (task_runs d ! i) \<noteq> Pending"
    then show "task_runs (handleTaskFailure now taskRunId d) ! i = task_runs d ! i"
      by (auto simp: rows)
  next
    show "map_option pr_status (select_pipeline_run p (handleTaskFailure now taskRunId d))
            = Some PipelineFailed"
      by (rule failed)
  next
    fix t
    show "checkPipelineCompletion t p (handleTaskFailure now taskRunId d)
            = handleTaskFailure now taskRunId d"
      by (rule kept)
  qed (simp_all only: queue whole update_pipeline_run_status_tables)
qed

text \<open>
  In the run of \<open>A \<rightarrow> {B, C}\<close>, \<open>C \<rightarrow> F\<close>: the pending run is cancelled, the running run of
  \<open>C\<close> is left as it is, the pipeline run is failed, and when \<open>C\<close> completes a run of \<open>F\<close>
  is enqueued.
\<close>

theorem fail_fast_cancels_pending_only_witness:
  "tr_status (task_runs (handleTaskFailure 50 ''b1'' failfast_db) ! 3) = Cancelled
   \<and> task_runs (handleTaskFailure 50 ''b1'' failfast_db) ! 2
       = example_run ''c1'' ''C'' (Some ''p1'') Running
   \<and> map_option pr_status (select_pipeline_run ''p1'' (handleTaskFailure 50 ''b1'' failfast_db))
       = Some PipelineFailed
   \<and> fst (queueDownstreamTasks 60 example_nanoid ''c1'' None
            (markCompleted 60 ''c1'' ''o_c'' None None None (handleTaskFailure 50 ''b1'' failfast_db)))
       = Inr [''trun_x'']"
proof -
  have prid: "tr_pipeline_run_id (example_run ''b1'' ''B'' (Some ''p1'') Failed) = Some ''p1''"
    and ne: "''p1'' \<noteq> []"
    and mode: "pr_failure_mode (example_pipeline_run ''p1''
                  [(''A'', [''B'', ''C'']), (''B'', []), (''C'', [''F'']), (''F'', [])] FailFast) = FailFast"
    by simp_all
  note th = fail_fast_cancels_pending_only [OF failfast_selects(1) prid ne failfast_selects(2) mode, of 50]
  from th have rows: "\<forall>i < length (task_runs failfast_db).
          (tr_pipeline_run_id (task_runs failfast_db ! i) = Some ''p1''
             \<and> tr_status (task_runs failfast_db ! i) = Pending
             \<longrightarrow> task_runs (handleTaskFailure 50 ''b1'' failfast_db) ! i
                   = (task_runs failfast_db ! i)\<lparr> tr_status := Cancelled,
                                         tr_error := Some ''Pipeline failed in fail-fast mode'',
                                         tr_completed_at := Some 50 \<rparr>)
        \<and> (tr_pipeline_run_id (task_runs failfast_db ! i) \<noteq> Some ''p1''
             \<or> tr_status (task_runs failfast_db ! i) \<noteq> Pending
             \<longrightarrow> task_runs (handleTaskFailure 50 ''b1'' failfast_db) ! i = task_runs failfast_db ! i)"
    by (elim conjE)
  from rows [rule_format, of 3, THEN conjunct1]
  have third: "tr_status (task_runs (handleTaskFailure 50 ''b1'' failfast_db) ! 3) = Cancelled"
    by simp
  from rows [rule_format, of 2, THEN conjunct2]
  have second: "task_runs (handleTaskFailure 50 ''b1'' failfast_db) ! 2
                  = example_run ''c1'' ''C'' (Some ''p1'') Running"
    by simp
  from th have failed: "map_option pr_status
                          (select_pipeline_run ''p1'' (handleTaskFailure 50 ''b1'' failfast_db))
                        = Some PipelineFailed"
    by (elim conjE)
  from th [THEN conjunct2, THEN conjunct2, THEN conjunct2, THEN conjunct1, rule_format,
           of 60 example_nanoid "''c1''" None "''o_c''" None None None, THEN conjunct1]
  have queued: "fst (queueDownstreamTasks 60 example_nanoid ''c1'' None
            (markCompleted 60 ''c1'' ''o_c'' None None None (handleTaskFailure 50 ''b1'' failfast_db)))
       = Inr [''trun_x'']"
    by (simp add: sibling_unmarked_queue example_nanoid_def)
  from third second failed queued show ?thesis by (intro conjI)
qed

section \<open>Upstream references (C4)\<close>

lemma a_twice_predecessors: "predecessors_of linear_snapshot ''B'' = [''A'']"
  by (simp add: predecessors_of_def linear_snapshot_def)

lemma a_twice_select_pipeline_run:
  "select_pipeline_run ''p1'' (linear_db rs) = Some (example_pipeline_run ''p1'' linear_snapshot Continue)"
  by (simp add: select_pipeline_run_def)

lemma a_twice_completed:
  "completed_runs_of ''p1'' [''A''] (linear_db a_twice) = a_twice"
  by (simp add: completed_runs_of_def a_twice_def)

lemma a_twice_ordered:
  "order_by_completed_at_desc a_twice =
     [example_completed_run ''a2'' ''A'' ''p1'' 20 ''o2'',
      example_completed_run ''a1'' ''A'' ''p1'' 10 ''o1'']"
  by (simp add: order_by_completed_at_desc_def a_twice_def)

lemma a_twice_refs:
  "buildUpstreamRefs ''B'' ''p1'' (linear_db a_twice) ''A''
     = Some \<lparr> outputPath = ''o1'', assets = ''{}'' \<rparr>"
  by (simp add: buildUpstreamRefs_def a_twice_select_pipeline_run a_twice_predecessors
        a_twice_completed a_twice_ordered truthy_def nullish_def)

lemma a_twice_select:
  "select_task_run ''a2'' (linear_db a_twice) = Some (example_completed_run ''a2'' ''A'' ''p1'' 20 ''o2'')"
  by (simp add: select_task_run_def a_twice_def)

lemma a_twice_ready: "isJoinTaskReady ''B'' ''p1'' (linear_db a_twice)"
  by (simp add: isJoinTaskReady_def a_twice_select_pipeline_run a_twice_predecessors)

lemma a_twice_unfold:
  "queueDownstreamTasks 30 example_nanoid ''a2'' None (linear_db a_twice) =
     (Inr [''trun_'' @ example_nanoid 0],
      (linear_db a_twice)\<lparr> task_runs := task_runs (linear_db a_twice) @
         [new_task_run 30 (''trun_'' @ example_nanoid 0)
            (downstream_options (example_completed_run ''a2'' ''A'' ''p1'' 20 ''o2'') ''B''
               (linear_db a_twice))
            (example_task ''B'' [] 0 2)] \<rparr>)"
proof -
  let ?a2 = "example_completed_run ''a2'' ''A'' ''p1'' 20 ''o2''"
  have "queueDownstreamTasks 30 example_nanoid ''a2'' None (linear_db a_twice)
          = queueNextTasks 30 example_nanoid 0 ?a2 [''B''] [] (linear_db a_twice)"
    using queueDownstreamTasks_all_next [OF a_twice_select, of "example_task ''A'' [''B''] 0 2"]
    by (simp add: truthy_def select_task_def)
  also have "\<dots> = queueNextTasks 30 example_nanoid (Suc 0) ?a2 [] ([] @ [''trun_'' @ example_nanoid 0])
                     ((linear_db a_twice)\<lparr> task_runs := task_runs (linear_db a_twice) @
                         [new_task_run 30 (''trun_'' @ example_nanoid 0)
                            (downstream_options ?a2 ''B'' (linear_db a_twice))
                            (example_task ''B'' [] 0 2)] \<rparr>)"
    by (rule queueNextTasks_ready) (simp_all add: a_twice_ready select_task_def)
  finally show ?thesis by simp
qed

lemma a_twice_enqueued:
  "map (\<lambda>r. (tr_task_id r, map_option outputPath (tr_upstream_refs r ''A'')))
       (task_runs (snd (queueDownstreamTasks 30 example_nanoid ''a2'' None (linear_db a_twice))))
     = [(''A'', None), (''A'', None), (''B'', Some ''o1'')]"
  unfolding a_twice_unfold
  by (simp add: a_twice_refs downstream_options_def nullish_def)
     (simp add: a_twice_def example_completed_run_def example_run_def)

text \<open>
  C4. The claim: the upstream references handed to a downstream task map each
  predecessor to the output of its most recent completed run; when a predecessor
  completed more than once, the latest completion wins. The code selects the completed
  runs \<open>ORDER BY completed_at DESC\<close> and then assigns them one by one into the result
  object, so each later row overwrites the earlier one and the row that stays is the
  last of the descending order: the oldest completion. With \<open>A\<close> completed at 10 with
  output \<open>o1\<close> and again at 20 with output \<open>o2\<close>, the reference for \<open>A\<close> is \<open>o1\<close>, also
  in the run of \<open>B\<close> that the completion of the second run of \<open>A\<close> enqueues.
\<close>

theorem upstream_refs_keep_oldest:
  "map (\<lambda>r. (tr_id r, tr_completed_at r, tr_output_path r)) (order_by_completed_at_desc a_twice)
     = [(''a2'', Some 20, Some ''o2''), (''a1'', Some 10, Some ''o1'')]
   \<and> buildUpstreamRefs ''B'' ''p1'' (linear_db a_twice) ''A''
       = Some \<lparr> outputPath = ''o1'', assets = ''{}'' \<rparr>
   \<and> map (\<lambda>r. (tr_task_id r, map_option outputPath (tr_upstream_refs r ''A'')))
         (task_runs (snd (queueDownstreamTasks 30 example_nanoid ''a2'' None (linear_db a_twice))))
       = [(''A'', None), (''A'', None), (''B'', Some ''o1'')]"
proof (intro conjI)
  show "map (\<lambda>r. (tr_id r, tr_completed_at r, tr_output_path r)) (order_by_completed_at_desc a_twice)
     = [(''a2'', Some 20, Some ''o2''), (''a1'', Some 10, Some ''o1'')]"
    unfolding a_twice_ordered by simp
qed (rule a_twice_refs a_twice_enqueued)+

section \<open>Retry, then the dead letter queue (C3)\<close>

lemma dispatchTask_throw_retry:
  assumes "select_task (pt_taskId task) (w_db w) = Some td"
    and "pt_attempt task < pt_maxRetries task"
  shows "w_db (dispatchTask now always_throw nid task w) =
           snd (scheduleRetry now
                  \<lparr> ro_runId = pt_runId task, ro_taskId = pt_taskId task,
                    ro_attempt = pt_attempt task, ro_maxRetries = pt_maxRetries task,
                    ro_retryBackoff = t_retry_backoff td, ro_retryDelayMs = t_retry_delay_ms td,
                    ro_maxRetryDelayMs = t_max_retry_delay_ms td, ro_error = ''boom'',
                    ro_errorCode = Some ''DISPATCH_FAILED'' \<rparr>
                  (markRunning now (pt_runId task) (w_db w)))"
proof -
  have "select_task (pt_taskId task) (markRunning now (pt_runId task) (w_db w)) = Some td"
    using assms(1) by (simp add: select_task_def markRunning_def update_run_def)
  with assms(2) show ?thesis
    by (simp add: dispatchTask_def always_throw_def error_message_def Let_def)
qed

lemma dispatchTask_throw_exhausted:
  assumes "\<not> pt_attempt task < pt_maxRetries task"
  shows "w_db (dispatchTask now always_throw nid task w) =
           markFailed now (pt_runId task) ''boom'' (Some ''DISPATCH_FAILED'')
             (snd (dlq_add now nid task ''boom'' (markRunning now (pt_runId task) (w_db w))))"
  using assms by (simp add: dispatchTask_def always_throw_def error_message_def Let_def)

lemma retry_select: "select_task ''X'' (d\<lparr> task_runs := rs \<rparr>) = select_task ''X'' d"
  by (simp add: select_task_def)

lemma retry_db_task: "select_task ''X'' retry_db = Some (example_task ''X'' [] 0 2)"
  by (simp add: select_task_def retry_db_def empty_db_def)

lemma retry_world_db: "w_db retry_world = retry_db\<lparr> task_runs := [retry_run] \<rparr>"
proof -
  have "enqueue 0 ''x'' (example_enqueue_options ''X'' None) retry_db =
          (Inr \<lparr> qt_runId = ''trun_'' @ ''x'', qt_taskId = qo_taskId (example_enqueue_options ''X'' None),
                 qt_status = Pending,
                 qt_inputPath = input_path_for (qo_pipelineRunId (example_enqueue_options ''X'' None))
                                  (''trun_'' @ ''x'') \<rparr>,
           retry_db\<lparr> task_runs := task_runs retry_db @
               [new_task_run 0 (''trun_'' @ ''x'') (example_enqueue_options ''X'' None)
                  (example_task ''X'' [] 0 2)] \<rparr>)"
    by (rule enqueue_no_key) (simp_all add: example_enqueue_options_def retry_db_task)
  then show ?thesis
    by (simp add: retry_world_def retry_run_def retry_db_def empty_db_def)
qed

lemma retry_run_fields [simp]:
  "tr_id retry_run = ''trun_x''" "tr_task_id retry_run = ''X''" "tr_status retry_run = Pending"
  "tr_attempt retry_run = 1" "tr_max_retries retry_run = 2" "tr_scheduled_for retry_run = None"
  "tr_previous_attempts retry_run = []" "tr_error retry_run = None"
  by (simp_all add: retry_run_def example_enqueue_options_def new_task_run_def)

lemma retry_running_count: "running_count ''X'' (retry_db\<lparr> task_runs := [r] \<rparr>) = (if tr_task_id r = ''X'' \<and> tr_status r = Running then 1 else 0)"
  by (simp add: running_count_def)

lemma retry_getNext_single:
  assumes "tr_status r = Pending" and "tr_task_id r = ''X''"
    and "case tr_scheduled_for r of None \<Rightarrow> True | Some s \<Rightarrow> s \<le> now"
  shows "getNext now 10 (retry_db\<lparr> task_runs := [r] \<rparr>) = [to_pending_task r]"
  using assms by (simp add: getNext_def eligible_def retry_select retry_db_task)

lemma first_failure_db:
  "w_db first_failure =
     snd (scheduleRetry 1000
            \<lparr> ro_runId = ''trun_x'', ro_taskId = ''X'', ro_attempt = 1, ro_maxRetries = 2,
              ro_retryBackoff = Exponential, ro_retryDelayMs = 100, ro_maxRetryDelayMs = 10000,
              ro_error = ''boom'', ro_errorCode = Some ''DISPATCH_FAILED'' \<rparr>
            (markRunning 1000 ''trun_x'' (retry_db\<lparr> task_runs := [retry_run] \<rparr>)))"
proof -
  have next1: "getNext 1000 10 (retry_db\<lparr> task_runs := [retry_run] \<rparr>) = [to_pending_task retry_run]"
    by (rule retry_getNext_single) simp_all
  have "w_db (dispatchTask 1000 always_throw (example_nanoid 0) (to_pending_task retry_run) retry_world)
          = snd (scheduleRetry 1000
            \<lparr> ro_runId = pt_runId (to_pending_task retry_run), ro_taskId = pt_taskId (to_pending_task retry_run),
              ro_attempt = pt_attempt (to_pending_task retry_run),
              ro_maxRetries = pt_maxRetries (to_pending_task retry_run),
              ro_retryBackoff = t_retry_backoff (example_task ''X'' [] 0 2),
              ro_retryDelayMs = t_retry_delay_ms (example_task ''X'' [] 0 2),
              ro_maxRetryDelayMs = t_max_retry_delay_ms (example_task ''X'' [] 0 2),
              ro_error = ''boom'', ro_errorCode = Some ''DISPATCH_FAILED'' \<rparr>
            (markRunning 1000 (pt_runId (to_pending_task retry_run)) (w_db retry_world)))"
    by (rule dispatchTask_throw_retry) (simp_all add: retry_world_db retry_select retry_db_task)
  then show ?thesis
    by (simp add: first_failure_def poll_def next1 retry_world_db Let_def)
qed

lemma first_failure_state: "w_db first_failure = retry_db\<lparr> task_runs := [retried_run] \<rparr>"
  unfolding first_failure_db
  by (simp add: scheduleRetry_def calculateDelay_def markRunning_def update_run_def Let_def
        retried_run_def)

lemma retried_run_fields [simp]:
  "tr_id retried_run = ''trun_x''" "tr_task_id retried_run = ''X''" "tr_status retried_run = Pending"
  "tr_attempt retried_run = 2" "tr_max_retries retried_run = 2"
  "tr_scheduled_for retried_run = Some 1100" "tr_error retried_run = None"
  "map ar_attempt (tr_previous_attempts retried_run) = [1]"
  by (simp_all add: retried_run_def)

lemma first_failure_summary:
  "map summary (task_runs (w_db first_failure)) = [(Pending, 2, Some 1100, [1], None)]"
  unfolding first_failure_state by (simp add: summary_def)

lemma second_failure_db:
  "w_db second_failure =
     markFailed 1100 ''trun_x'' ''boom'' (Some ''DISPATCH_FAILED'')
       (snd (dlq_add 1100 (example_nanoid 0) (to_pending_task retried_run) ''boom''
               (markRunning 1100 ''trun_x'' (retry_db\<lparr> task_runs := [retried_run] \<rparr>))))"
proof -
  have next2: "getNext 1100 10 (retry_db\<lparr> task_runs := [retried_run] \<rparr>) = [to_pending_task retried_run]"
    by (rule retry_getNext_single) simp_all
  have "w_db (dispatchTask 1100 always_throw (example_nanoid 0) (to_pending_task retried_run) first_failure)
          = markFailed 1100 (pt_runId (to_pending_task retried_run)) ''boom'' (Some ''DISPATCH_FAILED'')
              (snd (dlq_add 1100 (example_nanoid 0) (to_pending_task retried_run) ''boom''
                      (markRunning 1100 (pt_runId (to_pending_task retried_run)) (w_db first_failure))))"
    by (rule dispatchTask_throw_exhausted) simp
  then show ?thesis
    by (simp add: second_failure_def poll_def next2 first_failure_state Let_def)
qed

lemma second_failure_summary:
  "map summary (task_runs (w_db second_failure)) = [(Failed, 2, Some 1100, [1], Some ''boom'')]"
  unfolding second_failure_db
  by (simp add: markFailed_def dlq_add_def markRunning_def update_run_def summary_def Let_def)

lemma second_failure_dlq:
  "map (\<lambda>q. (dlq_task_run_id q, dlq_attempts q, map ar_attempt (dlq_previous_attempts q)))
       (dlq (w_db second_failure)) = [(''trun_x'', 2, [1])]"
  unfolding second_failure_db
  by (simp add: markFailed_def dlq_add_def markRunning_def update_run_def Let_def retry_db_def
        empty_db_def)

lemma scheduleRetry_exhausted:
  "scheduleRetry now (options\<lparr> ro_attempt := 2, ro_maxRetries := 2 \<rparr>) d = (False, d)"
  by (simp add: scheduleRetry_def)

text \<open>
  C3. The claim: with \<open>maxRetries = 2\<close>, exponential backoff, \<open>retryDelayMs = 100\<close> and
  \<open>maxRetryDelayMs = 10000\<close>, the first failure schedules attempt 2 for now + 100 ms, the
  second failure schedules attempt 3 for now + 200 ms, and only the third failure ends in
  the dead letter queue, with two previous attempts. \<open>scheduleRetry\<close> refuses as soon as
  \<open>attempt \<ge> maxRetries\<close>, and \<open>poll\<close> retries only while \<open>attempt < maxRetries\<close>: the
  first failure (at 1000) schedules attempt 2 for 1100, and the second failure (at 1100)
  already exhausts the retries: no third attempt, the run is failed at attempt 2 with one
  previous attempt, and the dead letter row records 2 attempts.
\<close>

theorem retries_exhausted_after_second_failure:
  "map summary (task_runs (w_db retry_world)) = [(Pending, 1, None, [], None)]
   \<and> map summary (task_runs (w_db first_failure)) = [(Pending, 2, Some 1100, [1], None)]
   \<and> scheduleRetry now (options\<lparr> ro_attempt := 2, ro_maxRetries := 2 \<rparr>) d = (False, d)
   \<and> map summary (task_runs (w_db second_failure)) = [(Failed, 2, Some 1100, [1], Some ''boom'')]
   \<and> map (\<lambda>q. (dlq_task_run_id q, dlq_attempts q, map ar_attempt (dlq_previous_attempts q)))
         (dlq (w_db second_failure)) = [(''trun_x'', 2, [1])]"
proof (intro conjI)
  show "map summary (task_runs (w_db retry_world)) = [(Pending, 1, None, [], None)]"
    unfolding retry_world_db by (simp add: summary_def)
qed (rule first_failure_summary scheduleRetry_exhausted second_failure_summary second_failure_dlq)+

section \<open>The per-task concurrency cap (C5)\<close>

lemma capped_tables [simp]:
  "tasks capped_db = [example_task ''T'' [] 1 2]"
  "task_runs capped_db = [example_run ''r1'' ''T'' None Pending, example_run ''r2'' ''T'' None Pending]"
  by (simp_all add: capped_db_def empty_db_def)

lemma capped_running_before: "running_count ''T'' capped_db = 0"
  by (simp add: running_count_def)

lemma capped_eligible:
  "eligible 0 capped_db (example_run ''r1'' ''T'' None Pending)"
  "eligible 0 capped_db (example_run ''r2'' ''T'' None Pending)"
  by (simp_all add: eligible_def select_task_def capped_running_before)

lemma capped_getNext:
  "getNext 0 10 capped_db = [to_pending_task (example_run ''r1'' ''T'' None Pending),
                             to_pending_task (example_run ''r2'' ''T'' None Pending)]"
  by (simp add: getNext_def capped_eligible)

lemma dispatchTask_no_throw:
  "w_db (dispatchTask now no_throw nid task w) = markRunning now (pt_runId task) (w_db w)"
  by (simp add: dispatchTask_def no_throw_def Let_def split: option.split)

lemma capped_poll:
  "w_db (snd (poll 0 True 10 no_throw example_nanoid \<lparr> w_db = capped_db, w_monitor = idle_monitor \<rparr>))
     = markRunning 0 ''r2'' (markRunning 0 ''r1'' capped_db)"
  by (simp add: poll_def capped_getNext dispatchTask_no_throw)

lemma capped_running_after:
  "running_count ''T'' (markRunning 0 ''r2'' (markRunning 0 ''r1'' capped_db)) = 2"
  by (simp add: running_count_def markRunning_def update_run_def)

text \<open>
  C5. The claim: with a single orchestrator, the number of running runs of a task with
  concurrency \<open>> 0\<close> never exceeds the concurrency, and marking the runs \<open>getNext\<close>
  returned as running preserves the cap. \<open>getNext\<close> tests every pending row against
  the running count as it is before the call, so one call returns several pending runs
  of the same task. For a task of concurrency 1 with nothing running and two pending
  runs, one poll cycle claims both and marks both running: two running runs against a
  cap of 1.
\<close>

theorem poll_exceeds_concurrency:
  "map t_concurrency (tasks capped_db) = [1]
   \<and> running_count ''T'' capped_db = 0
   \<and> map pt_runId (getNext 0 10 capped_db) = [''r1'', ''r2'']
   \<and> map pt_taskId (getNext 0 10 capped_db) = [''T'', ''T'']
   \<and> running_count ''T''
        (w_db (snd (poll 0 True 10 no_throw example_nanoid
                      \<lparr> w_db = capped_db, w_monitor = idle_monitor \<rparr>))) = 2"
proof (intro conjI)
  show "map t_concurrency (tasks capped_db) = [1]" by simp
  show "running_count ''T'' capped_db = 0" by (rule capped_running_before)
  show "map pt_runId (getNext 0 10 capped_db) = [''r1'', ''r2'']"
    by (simp add: capped_getNext)
  show "map pt_taskId (getNext 0 10 capped_db) = [''T'', ''T'']"
    by (simp add: capped_getNext)
  show "running_count ''T''
        (w_db (snd (poll 0 True 10 no_throw example_nanoid
                      \<lparr> w_db = capped_db, w_monitor = idle_monitor \<rparr>))) = 2"
    unfolding capped_poll by (rule capped_running_after)
qed

section \<open>The idempotency fast path of enqueue (C6)\<close>

lemma find_unique:
  assumes "distinct (map f xs)" and "c \<in> set xs" and "P c" and "\<forall>x. P x \<longrightarrow> f x = k"
  shows "find P xs = Some c"
  using assms(1,2)
proof (induction xs)
  case Nil
  then show ?case by simp
next
  case (Cons x xs)
  show ?case
  proof (cases "x = c")
    case True
    with \<open>P c\<close> show ?thesis by simp
  next
    case False
    with Cons.prems have mem: "c \<in> set xs" and dist: "distinct (map f xs)"
      and fresh: "f x \<notin> f ` set xs"
      by simp_all
    from mem fresh have "f x \<noteq> f c" by blast
    moreover from assms(3,4) have "f c = k" by blast
    ultimately have "\<not> P x" using assms(4) by metis
    with Cons.IH [OF dist mem] show ?thesis by simp
  qed
qed

lemma checkIdempotency_hit:
  assumes "distinct (map ic_idempotency_key (idempotency_cache d))"
    and "c \<in> set (idempotency_cache d)" and "ic_idempotency_key c = k" and "now < ic_expires_at c"
  shows "checkIdempotency now k d =
           Some \<lparr> cr_taskRunId = ic_task_run_id c, cr_outputPath = ic_output_path c,
                  cr_outputSize = ic_output_size c, cr_assets = ic_assets c \<rparr>"
proof -
  have "find (\<lambda>c. ic_idempotency_key c = k \<and> ic_expires_at c > now) (idempotency_cache d) = Some c"
    using assms by (intro find_unique[where f = ic_idempotency_key and k = k]) auto
  then show ?thesis by (simp add: checkIdempotency_def)
qed

lemma checkIdempotency_miss:
  assumes "\<forall>c \<in> set (idempotency_cache d). ic_idempotency_key c = k \<longrightarrow> ic_expires_at c \<le> now"
  shows "checkIdempotency now k d = None"
proof -
  have "find (\<lambda>c. ic_idempotency_key c = k \<and> ic_expires_at c > now) (idempotency_cache d) = None"
    using assms by (auto simp: find_None_iff)
  then show ?thesis by (simp add: checkIdempotency_def)
qed

lemma unregistered_live:
  "checkIdempotency 5 ''v1-o1''
     (empty_db\<lparr> idempotency_cache := [example_cache_row ''v1-o1'' 3600] \<rparr>) \<noteq> None"
  by (simp add: checkIdempotency_def fixtures)

lemma unregistered_throws:
  "enqueue 5 ''n1'' (example_enqueue_options ''pay'' (Some ''v1-o1''))
       (empty_db\<lparr> idempotency_cache := [example_cache_row ''v1-o1'' 3600] \<rparr>)
     = (Inl (TaskNotFound ''pay''),
        empty_db\<lparr> idempotency_cache := [example_cache_row ''v1-o1'' 3600] \<rparr>)"
  by (simp add: enqueue_def select_task_def fixtures)

lemma empty_key_live:
  "checkIdempotency 5 ''''
     (empty_db\<lparr> tasks := [example_task ''pay'' [] 0 2],
                idempotency_cache := [example_cache_row '''' 3600] \<rparr>) \<noteq> None"
  by (simp add: checkIdempotency_def fixtures)

lemma empty_key_inserts:
  "fst (enqueue 5 ''n1'' (example_enqueue_options ''pay'' (Some ''''))
          (empty_db\<lparr> tasks := [example_task ''pay'' [] 0 2],
                     idempotency_cache := [example_cache_row '''' 3600] \<rparr>))
     = Inr \<lparr> qt_runId = ''trun_n1'', qt_taskId = ''pay'', qt_status = Pending,
            qt_inputPath = ''standalone/trun_n1/input.json'' \<rparr>"
  by (simp add: enqueue_def select_task_def truthy_def input_path_for_def fixtures)

text \<open>
  C6, as stated: every \<open>enqueue\<close> call that carries an idempotency key with a live cache
  entry returns the cached run as completed and inserts nothing. Two calls where it does
  not: the task of the call is not registered (the call throws, although the key has a
  live entry), and the key is the empty string (JavaScript takes it for no key, and a
  fresh pending run is returned although the cache has a live entry for it).
\<close>

theorem enqueue_cached_key_counterexample:
  "checkIdempotency 5 ''v1-o1''
     (empty_db\<lparr> idempotency_cache := [example_cache_row ''v1-o1'' 3600] \<rparr>) \<noteq> None
   \<and> enqueue 5 ''n1'' (example_enqueue_options ''pay'' (Some ''v1-o1''))
       (empty_db\<lparr> idempotency_cache := [example_cache_row ''v1-o1'' 3600] \<rparr>)
     = (Inl (TaskNotFound ''pay''),
        empty_db\<lparr> idempotency_cache := [example_cache_row ''v1-o1'' 3600] \<rparr>)
   \<and> checkIdempotency 5 ''''
       (empty_db\<lparr> tasks := [example_task ''pay'' [] 0 2],
                  idempotency_cache := [example_cache_row '''' 3600] \<rparr>) \<noteq> None
   \<and> fst (enqueue 5 ''n1'' (example_enqueue_options ''pay'' (Some ''''))
          (empty_db\<lparr> tasks := [example_task ''pay'' [] 0 2],
                     idempotency_cache := [example_cache_row '''' 3600] \<rparr>))
     = Inr \<lparr> qt_runId = ''trun_n1'', qt_taskId = ''pay'', qt_status = Pending,
            qt_inputPath = ''standalone/trun_n1/input.json'' \<rparr>"
  by (intro conjI unregistered_live unregistered_throws empty_key_live empty_key_inserts)

text \<open>A call for a task that is not registered throws, whatever the cache holds.\<close>

lemma enqueue_unregistered_task:
  assumes "select_task (qo_taskId options) d = None"
  shows "enqueue now nid options d = (Inl (TaskNotFound (qo_taskId options)), d)"
  using assms by (simp add: enqueue_def)

text \<open>A call for a registered task, the cache holding at most one entry per key.\<close>

lemma enqueue_registered_task:
  assumes task: "select_task (qo_taskId options) d = Some task"
    and uniq: "distinct (map ic_idempotency_key (idempotency_cache d))"
  shows "(\<forall>k c. qo_idempotencyKey options = Some k \<and> k \<noteq> [] \<and> c \<in> set (idempotency_cache d)
             \<and> ic_idempotency_key c = k \<and> now < ic_expires_at c
           \<longrightarrow> enqueue now nid options d =
                 (Inr \<lparr> qt_runId = ic_task_run_id c, qt_taskId = qo_taskId options,
                        qt_status = Completed, qt_inputPath = ic_output_path c \<rparr>, d))
       \<and> ((\<forall>k. qo_idempotencyKey options = Some k \<and> k \<noteq> [] \<longrightarrow>
               (\<forall>c \<in> set (idempotency_cache d). ic_idempotency_key c = k \<longrightarrow> ic_expires_at c \<le> now))
           \<longrightarrow> (\<exists>row. enqueue now nid options d =
                    (Inr \<lparr> qt_runId = ''trun_'' @ nid, qt_taskId = qo_taskId options,
                           qt_status = Pending, qt_inputPath = tr_input_path row \<rparr>,
                     d\<lparr> task_runs := task_runs d @ [row] \<rparr>)
                  \<and> tr_id row = ''trun_'' @ nid \<and> tr_task_id row = qo_taskId options
                  \<and> tr_status row = Pending \<and> tr_attempt row = 1
                  \<and> tr_previous_attempts row = []))"
proof (intro conjI allI impI)
  fix k c
  assume h: "qo_idempotencyKey options = Some k \<and> k \<noteq> [] \<and> c \<in> set (idempotency_cache d)
             \<and> ic_idempotency_key c = k \<and> now < ic_expires_at c"
  then have "checkIdempotency now k d =
           Some \<lparr> cr_taskRunId = ic_task_run_id c, cr_outputPath = ic_output_path c,
                  cr_outputSize = ic_output_size c, cr_assets = ic_assets c \<rparr>"
    using uniq by (intro checkIdempotency_hit) auto
  with h task show "enqueue now nid options d =
                 (Inr \<lparr> qt_runId = ic_task_run_id c, qt_taskId = qo_taskId options,
                        qt_status = Completed, qt_inputPath = ic_output_path c \<rparr>, d)"
    by (simp add: enqueue_def truthy_def)
next
  assume h: "\<forall>k. qo_idempotencyKey options = Some k \<and> k \<noteq> [] \<longrightarrow>
               (\<forall>c \<in> set (idempotency_cache d). ic_idempotency_key c = k \<longrightarrow> ic_expires_at c \<le> now)"
  have miss: "(if truthy (qo_idempotencyKey options)
                then checkIdempotency now (the (qo_idempotencyKey options)) d
                else None) = None"
  proof (cases "truthy (qo_idempotencyKey options)")
    case True
    then obtain k where "qo_idempotencyKey options = Some k" "k \<noteq> []"
      by (auto simp: truthy_def split: option.splits)
    with h show ?thesis by (simp add: checkIdempotency_miss)
  next
    case False
    then show ?thesis by simp
  qed
  let ?row = "new_task_run now (''trun_'' @ nid) options task"
  have "enqueue now nid options d =
          (Inr \<lparr> qt_runId = ''trun_'' @ nid, qt_taskId = qo_taskId options,
                 qt_status = Pending, qt_inputPath = tr_input_path ?row \<rparr>,
           d\<lparr> task_runs := task_runs d @ [?row] \<rparr>)"
    using task miss by (simp add: enqueue_def new_task_run_def)
  moreover have "tr_id ?row = ''trun_'' @ nid \<and> tr_task_id ?row = qo_taskId options
                  \<and> tr_status ?row = Pending \<and> tr_attempt ?row = 1
                  \<and> tr_previous_attempts ?row = []"
    by simp
  ultimately show "\<exists>row. enqueue now nid options d =
                    (Inr \<lparr> qt_runId = ''trun_'' @ nid, qt_taskId = qo_taskId options,
                           qt_status = Pending, qt_inputPath = tr_input_path row \<rparr>,
                     d\<lparr> task_runs := task_runs d @ [row] \<rparr>)
                  \<and> tr_id row = ''trun_'' @ nid \<and> tr_task_id row = qo_taskId options
                  \<and> tr_status row = Pending \<and> tr_attempt row = 1
                  \<and> tr_previous_attempts row = []"
    by blast
qed

text \<open>
  C6, amended: for an \<open>enqueue\<close> call whose task is registered, the cache holding at
  most one entry per key: if the call carries a non-empty idempotency key and the cache
  holds an entry for it with \<open>expires_at\<close> strictly after now, the call returns that
  entry's run id with status completed and its output path as the input path, and the
  database is unchanged; if it carries no key, or an empty one, or no entry for the key
  expires after now, exactly one row is appended to \<open>task_runs\<close>, pending, with attempt 1
  and no previous attempts, and the call returns its id with status pending. For a task
  that is not registered the call throws \<open>Task not found\<close> and the database is unchanged,
  whatever the key and the cache: the task is looked up before the cache.
\<close>

theorem enqueue_idempotency:
  "(select_task (qo_taskId options) d = None
      \<longrightarrow> enqueue now nid options d = (Inl (TaskNotFound (qo_taskId options)), d))
   \<and> (select_task (qo_taskId options) d \<noteq> None
        \<and> distinct (map ic_idempotency_key (idempotency_cache d))
      \<longrightarrow>
        (\<forall>k c. qo_idempotencyKey options = Some k \<and> k \<noteq> [] \<and> c \<in> set (idempotency_cache d)
             \<and> ic_idempotency_key c = k \<and> now < ic_expires_at c
           \<longrightarrow> enqueue now nid options d =
                 (Inr \<lparr> qt_runId = ic_task_run_id c, qt_taskId = qo_taskId options,
                        qt_status = Completed, qt_inputPath = ic_output_path c \<rparr>, d))
        \<and> ((\<forall>k. qo_idempotencyKey options = Some k \<and> k \<noteq> [] \<longrightarrow>
               (\<forall>c \<in> set (idempotency_cache d). ic_idempotency_key c = k \<longrightarrow> ic_expires_at c \<le> now))
           \<longrightarrow> (\<exists>row. enqueue now nid options d =
                    (Inr \<lparr> qt_runId = ''trun_'' @ nid, qt_taskId = qo_taskId options,
                           qt_status = Pending, qt_inputPath = tr_input_path row \<rparr>,
                     d\<lparr> task_runs := task_runs d @ [row] \<rparr>)
                  \<and> tr_id row = ''trun_'' @ nid \<and> tr_task_id row = qo_taskId options
                  \<and> tr_status row = Pending \<and> tr_attempt row = 1
                  \<and> tr_previous_attempts row = [])))"
proof (rule conjI)
  show "select_task (qo_taskId options) d = None
      \<longrightarrow> enqueue now nid options d = (Inl (TaskNotFound (qo_taskId options)), d)"
    by (intro impI enqueue_unregistered_task)
next
  show "select_task (qo_taskId options) d \<noteq> None
        \<and> distinct (map ic_idempotency_key (idempotency_cache d))
      \<longrightarrow>
        (\<forall>k c. qo_idempotencyKey options = Some k \<and> k \<noteq> [] \<and> c \<in> set (idempotency_cache d)
             \<and> ic_idempotency_key c = k \<and> now < ic_expires_at c
           \<longrightarrow> enqueue now nid options d =
                 (Inr \<lparr> qt_runId = ic_task_run_id c, qt_taskId = qo_taskId options,
                        qt_status = Completed, qt_inputPath = ic_output_path c \<rparr>, d))
        \<and> ((\<forall>k. qo_idempotencyKey options = Some k \<and> k \<noteq> [] \<longrightarrow>
               (\<forall>c \<in> set (idempotency_cache d). ic_idempotency_key c = k \<longrightarrow> ic_expires_at c \<le> now))
           \<longrightarrow> (\<exists>row. enqueue now nid options d =
                    (Inr \<lparr> qt_runId = ''trun_'' @ nid, qt_taskId = qo_taskId options,
                           qt_status = Pending, qt_inputPath = tr_input_path row \<rparr>,
                     d\<lparr> task_runs := task_runs d @ [row] \<rparr>)
                  \<and> tr_id row = ''trun_'' @ nid \<and> tr_task_id row = qo_taskId options
                  \<and> tr_status row = Pending \<and> tr_attempt row = 1
                  \<and> tr_previous_attempts row = []))"
    (is "_ \<longrightarrow> ?registered")
  proof (rule impI, elim conjE)
    assume "select_task (qo_taskId options) d \<noteq> None"
      and uniq: "distinct (map ic_idempotency_key (idempotency_cache d))"
    then obtain task where task: "select_task (qo_taskId options) d = Some task"
      by (cases "select_task (qo_taskId options) d") simp_all
    from task uniq show ?registered
      by (rule enqueue_registered_task)
  qed
qed

text \<open>
  The scenario S4 of the specification: within the TTL the second call returns the first
  run, and once the entry has expired the same call inserts a row. The same call for a
  task that is not registered throws.
\<close>

theorem enqueue_idempotency_witness:
  "enqueue 5 ''n1'' (example_enqueue_options ''pay'' (Some ''v1-o1'')) db_pay_cached
     = (Inr \<lparr> qt_runId = ''trun_first'', qt_taskId = ''pay'', qt_status = Completed,
             qt_inputPath = ''o_pay'' \<rparr>, db_pay_cached)
   \<and> length (task_runs (snd (enqueue 3600 ''n2'' (example_enqueue_options ''pay'' (Some ''v1-o1''))
                               db_pay_cached))) = 1
   \<and> enqueue 5 ''n1'' (example_enqueue_options ''pay'' (Some ''v1-o1''))
       (empty_db\<lparr> idempotency_cache := [example_cache_row ''v1-o1'' 3600] \<rparr>)
     = (Inl (TaskNotFound ''pay''),
        empty_db\<lparr> idempotency_cache := [example_cache_row ''v1-o1'' 3600] \<rparr>)"
proof -
  have task: "select_task (qo_taskId (example_enqueue_options ''pay'' (Some ''v1-o1''))) db_pay_cached
                = Some (example_task ''pay'' [] 0 2)"
    by (simp add: select_task_def db_pay_cached_def fixtures)
  have uniq: "distinct (map ic_idempotency_key (idempotency_cache db_pay_cached))"
    by (simp add: db_pay_cached_def fixtures)
  from task uniq
  have registered: "select_task (qo_taskId (example_enqueue_options ''pay'' (Some ''v1-o1''))) db_pay_cached
                      \<noteq> None
                    \<and> distinct (map ic_idempotency_key (idempotency_cache db_pay_cached))"
    by simp
  have cache: "idempotency_cache db_pay_cached = [example_cache_row ''v1-o1'' 3600]"
    by (simp add: db_pay_cached_def fixtures)
  have key: "qo_idempotencyKey (example_enqueue_options ''pay'' (Some ''v1-o1'')) = Some ''v1-o1''"
    by (simp add: fixtures)
  have tid: "qo_taskId (example_enqueue_options ''pay'' (Some ''v1-o1'')) = ''pay''"
    by (simp add: fixtures)
  have row: "ic_idempotency_key (example_cache_row ''v1-o1'' 3600) = ''v1-o1''"
    "ic_expires_at (example_cache_row ''v1-o1'' 3600) = 3600"
    "ic_task_run_id (example_cache_row ''v1-o1'' 3600) = ''trun_first''"
    "ic_output_path (example_cache_row ''v1-o1'' 3600) = ''o_pay''"
    by (simp_all add: fixtures)
  have empty: "task_runs db_pay_cached = []"
    by (simp add: db_pay_cached_def fixtures)
  have live: "qo_idempotencyKey (example_enqueue_options ''pay'' (Some ''v1-o1'')) = Some ''v1-o1''
          \<and> ''v1-o1'' \<noteq> [] \<and> example_cache_row ''v1-o1'' 3600 \<in> set (idempotency_cache db_pay_cached)
          \<and> ic_idempotency_key (example_cache_row ''v1-o1'' 3600) = ''v1-o1''
          \<and> 5 < ic_expires_at (example_cache_row ''v1-o1'' 3600)"
    by (simp add: cache key row)
  from enqueue_idempotency [of "example_enqueue_options ''pay'' (Some ''v1-o1'')" db_pay_cached 5 "''n1''",
         THEN conjunct2, THEN mp, OF registered, THEN conjunct1, rule_format, OF live]
  have hit: "enqueue 5 ''n1'' (example_enqueue_options ''pay'' (Some ''v1-o1'')) db_pay_cached
     = (Inr \<lparr> qt_runId = ''trun_first'', qt_taskId = ''pay'', qt_status = Completed,
             qt_inputPath = ''o_pay'' \<rparr>, db_pay_cached)"
    by (simp add: tid row)
  have expired: "\<forall>k. qo_idempotencyKey (example_enqueue_options ''pay'' (Some ''v1-o1'')) = Some k \<and> k \<noteq> []
          \<longrightarrow> (\<forall>c \<in> set (idempotency_cache db_pay_cached).
                 ic_idempotency_key c = k \<longrightarrow> ic_expires_at c \<le> 3600)"
    by (simp add: cache key row)
  from enqueue_idempotency [of "example_enqueue_options ''pay'' (Some ''v1-o1'')" db_pay_cached 3600 "''n2''",
         THEN conjunct2, THEN mp, OF registered, THEN conjunct2, THEN mp, OF expired]
  obtain r where ins: "enqueue 3600 ''n2'' (example_enqueue_options ''pay'' (Some ''v1-o1'')) db_pay_cached =
                (Inr \<lparr> qt_runId = ''trun_'' @ ''n2'',
                       qt_taskId = qo_taskId (example_enqueue_options ''pay'' (Some ''v1-o1'')),
                       qt_status = Pending, qt_inputPath = tr_input_path r \<rparr>,
                 db_pay_cached\<lparr> task_runs := task_runs db_pay_cached @ [r] \<rparr>)"
    by blast
  have miss: "length (task_runs (snd (enqueue 3600 ''n2''
                      (example_enqueue_options ''pay'' (Some ''v1-o1'')) db_pay_cached))) = 1"
    unfolding ins by (simp add: empty)
  have absent: "select_task (qo_taskId (example_enqueue_options ''pay'' (Some ''v1-o1'')))
                  (empty_db\<lparr> idempotency_cache := [example_cache_row ''v1-o1'' 3600] \<rparr>) = None"
    by (simp add: select_task_def fixtures)
  from enqueue_idempotency [of "example_enqueue_options ''pay'' (Some ''v1-o1'')"
           "empty_db\<lparr> idempotency_cache := [example_cache_row ''v1-o1'' 3600] \<rparr>" 5 "''n1''",
         THEN conjunct1, THEN mp, OF absent]
  have throws: "enqueue 5 ''n1'' (example_enqueue_options ''pay'' (Some ''v1-o1''))
       (empty_db\<lparr> idempotency_cache := [example_cache_row ''v1-o1'' 3600] \<rparr>)
     = (Inl (TaskNotFound ''pay''),
        empty_db\<lparr> idempotency_cache := [example_cache_row ''v1-o1'' 3600] \<rparr>)"
    by (simp add: tid)
  from hit miss throws show ?thesis by (intro conjI)
qed

section \<open>Status transitions of a task run (C8)\<close>










section \<open>The heartbeat timeout (C9)\<close>

lemma handleTimeout_rows:
  assumes "trackers (w_monitor w) runId \<noteq> None"
  shows "task_runs (w_db (handleTimeout now runId w)) =
           map (\<lambda>r. if tr_id r = runId \<and> tr_status r = Running then timed_out now r else r)
             (task_runs (w_db w))"
  using assms by (auto simp: handleTimeout_def timed_out_def)

lemma startTracking_tracker:
  "trackers (startTracking now runId taskId h m) runId \<noteq> None"
  by (simp add: startTracking_def Let_def)

lemma fireTimer_after_startTracking:
  "w_db (fireTimer later \<lparr> tm_runId = runId, tm_armedAt = now, tm_delayMs = 2 * h \<rparr>
           (w\<lparr> w_monitor := startTracking now runId taskId h (w_monitor w) \<rparr>))
   = w_db (handleTimeout later runId
             (w\<lparr> w_monitor := (startTracking now runId taskId h (w_monitor w))
                   \<lparr> timers := remove1 \<lparr> tm_runId = runId, tm_armedAt = now, tm_delayMs = 2 * h \<rparr>
                                 (timers (startTracking now runId taskId h (w_monitor w))) \<rparr> \<rparr>))"
  by (simp add: fireTimer_def startTracking_def Let_def mult.commute)

text \<open>
  C9. \<open>startTracking\<close> arms one timer whose delay is twice the heartbeat interval, and
  records that delay in the tracker. When that timer fires, \<open>handleTimeout\<close> rewrites
  exactly the rows of the run that are still running (status \<open>timeout\<close>, error
  \<open>Task heartbeat timeout\<close>, error code \<open>TIMEOUT\<close>, \<open>completed_at\<close> the firing time); a
  row in any other state, and every row of another run, is left as it is. Without a
  tracker for the run \<open>handleTimeout\<close> changes nothing.
\<close>

theorem heartbeat_timeout_only_if_running:
  "timers (startTracking now runId taskId h m) =
     timers m @ [\<lparr> tm_runId = runId, tm_armedAt = now, tm_delayMs = 2 * h \<rparr>]
   \<and> map_option hb_timeoutMs (trackers (startTracking now runId taskId h m) runId) = Some (2 * h)
   \<and> length (task_runs (w_db (fireTimer later \<lparr> tm_runId = runId, tm_armedAt = now, tm_delayMs = 2 * h \<rparr>
                 (w\<lparr> w_monitor := startTracking now runId taskId h (w_monitor w) \<rparr>))))
       = length (task_runs (w_db w))
   \<and> (\<forall>i < length (task_runs (w_db w)).
         (tr_id (task_runs (w_db w) ! i) = runId \<and> tr_status (task_runs (w_db w) ! i) = Running
            \<longrightarrow> task_runs (w_db (fireTimer later
                       \<lparr> tm_runId = runId, tm_armedAt = now, tm_delayMs = 2 * h \<rparr>
                       (w\<lparr> w_monitor := startTracking now runId taskId h (w_monitor w) \<rparr>))) ! i
                 = (task_runs (w_db w) ! i)
                     \<lparr> tr_status := Timeout, tr_error := Some ''Task heartbeat timeout'',
                       tr_error_code := Some ''TIMEOUT'', tr_completed_at := Some later \<rparr>)
         \<and> (tr_id (task_runs (w_db w) ! i) \<noteq> runId \<or> tr_status (task_runs (w_db w) ! i) \<noteq> Running
            \<longrightarrow> task_runs (w_db (fireTimer later
                       \<lparr> tm_runId = runId, tm_armedAt = now, tm_delayMs = 2 * h \<rparr>
                       (w\<lparr> w_monitor := startTracking now runId taskId h (w_monitor w) \<rparr>))) ! i
                 = task_runs (w_db w) ! i))
   \<and> (trackers (w_monitor w) runId = None \<longrightarrow> handleTimeout later runId w = w)"
proof -
  let ?tm = "\<lparr> tm_runId = runId, tm_armedAt = now, tm_delayMs = 2 * h \<rparr>"
  let ?w = "w\<lparr> w_monitor := (startTracking now runId taskId h (w_monitor w))
                   \<lparr> timers := remove1 ?tm (timers (startTracking now runId taskId h (w_monitor w))) \<rparr> \<rparr>"
  have "trackers (w_monitor ?w) runId \<noteq> None"
    by (simp add: startTracking_tracker)
  from handleTimeout_rows [OF this, of later]
  have rows: "task_runs (w_db (fireTimer later ?tm
                 (w\<lparr> w_monitor := startTracking now runId taskId h (w_monitor w) \<rparr>))) =
           map (\<lambda>r. if tr_id r = runId \<and> tr_status r = Running then timed_out later r else r)
             (task_runs (w_db w))"
    unfolding fireTimer_after_startTracking by simp
  have arm: "timers (startTracking now runId taskId h m) = timers m @ [?tm]"
    by (simp add: startTracking_def Let_def mult.commute)
  have delay: "map_option hb_timeoutMs (trackers (startTracking now runId taskId h m) runId) = Some (2 * h)"
    by (simp add: startTracking_def Let_def mult.commute)
  have untracked: "trackers (w_monitor w) runId = None \<longrightarrow> handleTimeout later runId w = w"
    by (simp add: handleTimeout_def)
  show ?thesis
    unfolding rows using arm delay untracked by (simp add: timed_out_def)
qed

theorem heartbeat_timeout_witness:
  "tr_status (task_runs (w_db (fireTimer 120000
       \<lparr> tm_runId = ''r1'', tm_armedAt = 0, tm_delayMs = 2 * 60000 \<rparr>
       (heartbeat_world\<lparr> w_monitor := startTracking 0 ''r1'' ''T'' 60000 (w_monitor heartbeat_world) \<rparr>))) ! 0)
     = Timeout
   \<and> task_runs (w_db (fireTimer 120000
       \<lparr> tm_runId = ''r2'', tm_armedAt = 0, tm_delayMs = 2 * 60000 \<rparr>
       (heartbeat_world\<lparr> w_monitor := startTracking 0 ''r2'' ''T'' 60000 (w_monitor heartbeat_world) \<rparr>))) ! 1
     = example_run ''r2'' ''T'' None Completed"
proof -
  have rows: "task_runs (w_db heartbeat_world) =
                [example_run ''r1'' ''T'' None Running, example_run ''r2'' ''T'' None Completed]"
    by (simp add: heartbeat_world_def empty_db_def)
  from heartbeat_timeout_only_if_running [of 0 "''r1''" "''T''" 60000 idle_monitor 120000 heartbeat_world]
  have first: "tr_status (task_runs (w_db (fireTimer 120000
       \<lparr> tm_runId = ''r1'', tm_armedAt = 0, tm_delayMs = 2 * 60000 \<rparr>
       (heartbeat_world\<lparr> w_monitor := startTracking 0 ''r1'' ''T'' 60000 (w_monitor heartbeat_world) \<rparr>))) ! 0)
     = Timeout"
    by (simp add: rows)
  from heartbeat_timeout_only_if_running [of 0 "''r2''" "''T''" 60000 idle_monitor 120000 heartbeat_world]
  have second: "task_runs (w_db (fireTimer 120000
       \<lparr> tm_runId = ''r2'', tm_armedAt = 0, tm_delayMs = 2 * 60000 \<rparr>
       (heartbeat_world\<lparr> w_monitor := startTracking 0 ''r2'' ''T'' 60000 (w_monitor heartbeat_world) \<rparr>))) ! 1
     = example_run ''r2'' ''T'' None Completed"
    by (simp add: rows)
  from first second show ?thesis by (rule conjI)
qed

section \<open>Re-registration and code versions (C7)\<close>

lemma find_snoc:
  "find P (xs @ [y]) = (case find P xs of None \<Rightarrow> (if P y then Some y else None) | Some x \<Rightarrow> Some x)"
  by (induction xs) simp_all

lemma upsert_task_tables [simp]:
  "services (upsert_task now sid h v t d) = services d"
  "task_code_history (upsert_task now sid h v t d) = task_code_history d"
  "task_runs (upsert_task now sid h v t d) = task_runs d"
  by (simp_all add: upsert_task_def Let_def)

lemma select_task_upsert_same:
  "\<exists>e. select_task (tc_id t) (upsert_task now sid h v t d) = Some e
       \<and> t_code_hash e = h \<and> t_code_version e = v"
proof (cases "select_task (tc_id t) d")
  case None
  then show ?thesis
    by (simp add: upsert_task_def Let_def) (simp add: select_task_def find_snoc)
next
  case (Some e)
  then have found: "find (\<lambda>x. t_id x = tc_id t) (tasks d) = Some e"
    by (simp add: select_task_def)
  then have "t_id e = tc_id t" by (auto simp: find_Some_iff)
  with Some found show ?thesis
    by (simp add: upsert_task_def Let_def)
       (simp add: select_task_def find_map_same_key [where key = t_id])
qed

lemma upsert_task_stored [simp]:
  "\<exists>z. select_task (tc_id t) (upsert_task now sid h v t d) = Some z \<and> t_code_hash z = h"
  "\<exists>z. select_task (tc_id t) (upsert_task now sid h v t d) = Some z \<and> t_code_version z = v"
  using select_task_upsert_same [of t now sid h v d] by auto

lemma select_task_upsert_other:
  assumes "k \<noteq> tc_id t"
  shows "select_task k (upsert_task now sid h v t d) = select_task k d"
proof (cases "select_task (tc_id t) d")
  case None
  with assms show ?thesis
    by (simp add: upsert_task_def Let_def) (simp add: select_task_def find_snoc split: option.split)
next
  case (Some e)
  show ?thesis
  proof (cases "find (\<lambda>x. t_id x = k) (tasks d)")
    case None
    with Some show ?thesis
      by (simp add: upsert_task_def Let_def)
         (simp add: select_task_def find_map_same_key [where key = t_id])
  next
    case (Some x)
    then have "t_id x = k" by (auto simp: find_Some_iff)
    with assms Some \<open>select_task (tc_id t) d = Some e\<close> show ?thesis
      by (simp add: upsert_task_def Let_def)
         (simp add: select_task_def find_map_same_key [where key = t_id])
  qed
qed

lemma record_code_history_tables [simp]:
  "tasks (record_code_history now k v h sv d) = tasks d"
  "services (record_code_history now k v h sv d) = services d"
  by (simp_all add: record_code_history_def)

lemma select_task_record_code_history [simp]:
  "select_task k (record_code_history now i v h sv d) = select_task k d"
  by (simp add: select_task_def)

lemma register_task_services [simp]:
  "services (snd (register_task sha str now sid sv t acc)) = services (snd acc)"
  by (simp add: register_task_def Let_def)

lemma register_task_select_same:
  "map_option t_code_hash (select_task (tc_id t) (snd (register_task sha str now sid sv t acc)))
     = Some (calculateCodeHash sha (str t))"
  by (simp add: register_task_def Let_def)

lemma register_task_select_other:
  assumes "k \<noteq> tc_id t"
  shows "select_task k (snd (register_task sha str now sid sv t acc)) = select_task k (snd acc)"
  using assms by (simp add: register_task_def Let_def select_task_upsert_other)

lemma register_task_version:
  "map_option t_code_version (select_task (tc_id t) (snd (register_task sha str now sid sv t acc)))
     = Some (case select_task (tc_id t) (snd acc) of
               None \<Rightarrow> 1
             | Some e \<Rightarrow> if t_code_hash e \<noteq> calculateCodeHash sha (str t)
                         then t_code_version e + 1 else t_code_version e)"
  by (simp add: register_task_def Let_def split: option.split)

lemma register_task_unchanged:
  assumes "select_task (tc_id t) d = Some e" and "t_code_hash e = calculateCodeHash sha (str t)"
  shows "register_task sha str now sid sv t (cc, d) =
           (cc, upsert_task now sid (calculateCodeHash sha (str t)) (t_code_version e) t d)"
  using assms by (simp add: register_task_def Let_def)

text \<open>The stored hash and version of a task id.\<close>

lemma unchanged_step_keeps:
  assumes "select_task (tc_id t) d = Some e" and "t_code_hash e = calculateCodeHash sha (str t)"
  shows "map_option t_code_hash
           (select_task k (upsert_task now sid (calculateCodeHash sha (str t)) (t_code_version e) t d))
         = map_option t_code_hash (select_task k d)"
    and "map_option t_code_version
           (select_task k (upsert_task now sid (calculateCodeHash sha (str t)) (t_code_version e) t d))
         = map_option t_code_version (select_task k d)"
  using assms by (cases "k = tc_id t"; simp add: select_task_upsert_other)+

lemma fold_register_services [simp]:
  "services (snd (fold (register_task sha str now sid sv) ts acc)) = services (snd acc)"
  by (induction ts arbitrary: acc) simp_all

lemma fold_register_select_other:
  assumes "k \<notin> tc_id ` set ts"
  shows "select_task k (snd (fold (register_task sha str now sid sv) ts acc)) = select_task k (snd acc)"
  using assms by (induction ts arbitrary: acc) (simp_all add: register_task_select_other)

lemma fold_register_stores_hashes:
  assumes "distinct (map tc_id ts)" and "t \<in> set ts"
  shows "map_option t_code_hash (select_task (tc_id t) (snd (fold (register_task sha str now sid sv) ts acc)))
           = Some (calculateCodeHash sha (str t))"
  using assms
proof (induction ts arbitrary: acc)
  case Nil
  then show ?case by simp
next
  case (Cons x ts)
  show ?case
  proof (cases "t \<in> set ts")
    case True
    with Cons show ?thesis by simp
  next
    case False
    from False Cons.prems have tx: "t = x" and fresh: "tc_id x \<notin> tc_id ` set ts" by auto
    from fresh tx show ?thesis
      by (simp add: fold_register_select_other register_task_select_same)
  qed
qed

lemma fold_register_noop:
  assumes "\<forall>t \<in> set ts. map_option t_code_hash (select_task (tc_id t) d)
                            = Some (calculateCodeHash sha (str t))"
  shows "fst (fold (register_task sha str now sid sv) ts (cc, d)) = cc
       \<and> task_code_history (snd (fold (register_task sha str now sid sv) ts (cc, d)))
           = task_code_history d
       \<and> (\<forall>k. map_option t_code_hash (select_task k (snd (fold (register_task sha str now sid sv) ts (cc, d))))
               = map_option t_code_hash (select_task k d))
       \<and> (\<forall>k. map_option t_code_version (select_task k (snd (fold (register_task sha str now sid sv) ts (cc, d))))
               = map_option t_code_version (select_task k d))"
  using assms
proof (induction ts arbitrary: d)
  case Nil
  show ?case by simp
next
  case (Cons x ts)
  from Cons.prems obtain e where e: "select_task (tc_id x) d = Some e"
    "t_code_hash e = calculateCodeHash sha (str x)"
    by auto
  let ?d1 = "upsert_task now sid (calculateCodeHash sha (str x)) (t_code_version e) x d"
  have step: "register_task sha str now sid sv x (cc, d) = (cc, ?d1)"
    using e by (rule register_task_unchanged)
  have keep_hash: "map_option t_code_hash (select_task k ?d1) = map_option t_code_hash (select_task k d)"
    and keep_version: "map_option t_code_version (select_task k ?d1)
                         = map_option t_code_version (select_task k d)" for k
    using unchanged_step_keeps [where sha = sha and str = str and t = x, OF e] by simp_all
  have "\<forall>t \<in> set ts. map_option t_code_hash (select_task (tc_id t) ?d1)
                            = Some (calculateCodeHash sha (str t))"
    using Cons.prems by (simp add: keep_hash)
  from Cons.IH [OF this] show ?case
    by (simp add: step keep_hash keep_version)
qed

lemma upsert_service_tables [simp]:
  "tasks (upsert_service now sid v b d) = tasks d"
  "task_code_history (upsert_service now sid v b d) = task_code_history d"
  by (simp_all add: upsert_service_def)

lemma select_task_upsert_service [simp]:
  "select_task k (upsert_service now sid v b d) = select_task k d"
  by (simp add: select_task_def)

lemma select_service_upsert:
  "\<exists>s. select_service sid (upsert_service now sid v b d) = Some s \<and> s_version s = v"
proof (cases "select_service sid d")
  case None
  then show ?thesis
    by (simp add: upsert_service_def) (simp add: select_service_def find_snoc)
next
  case (Some s)
  then have "s_id s = sid"
    by (auto simp: select_service_def find_Some_iff)
  with Some show ?thesis
    by (simp add: upsert_service_def)
       (simp add: select_service_def find_map_same_key [where key = s_id])
qed

lemma cancel_pending_of_task_tables [simp]:
  "tasks (cancel_pending_of_task now v k d) = tasks d"
  "services (cancel_pending_of_task now v k d) = services d"
  "task_code_history (cancel_pending_of_task now v k d) = task_code_history d"
  by (simp_all add: cancel_pending_of_task_def)

lemma fold_cancel_pending_tables [simp]:
  "tasks (fold (cancel_pending_of_task now v) ks d) = tasks d"
  "services (fold (cancel_pending_of_task now v) ks d) = services d"
  "task_code_history (fold (cancel_pending_of_task now v) ks d) = task_code_history d"
  by (induction ks arbitrary: d) simp_all

lemma orphan_pass_tables [simp]:
  "tasks (snd (orphan_pass now request d)) = tasks d"
  "services (snd (orphan_pass now request d)) = services d"
  "task_code_history (snd (orphan_pass now request d)) = task_code_history d"
  by (simp_all add: orphan_pass_def Let_def)

lemma select_service_orphan_pass [simp]:
  "select_service k (snd (orphan_pass now request d)) = select_service k d"
  by (simp add: select_service_def)

lemma select_service_fold_register [simp]:
  "select_service k (snd (fold (register_task sha str now sid sv) ts acc)) = select_service k (snd acc)"
  by (simp add: select_service_def)

text \<open>After a registration the service row carries the version of the request.\<close>

lemma registerService_service:
  "\<exists>s. select_service (rq_serviceId request) (snd (registerService sha str now request d)) = Some s
       \<and> s_version s = rq_version request"
  using select_service_upsert [of "rq_serviceId request" now "rq_version request" "rq_baseUrl request" d]
  by (simp add: registerService_def Let_def)

text \<open>After a registration every task of the request is stored with the hash computed for it.\<close>

lemma registerService_stores_hashes:
  assumes "distinct (map tc_id (rq_tasks request))" and "t \<in> set (rq_tasks request)"
  shows "map_option t_code_hash (select_task (tc_id t) (snd (registerService sha str now request d)))
           = Some (calculateCodeHash sha (str t))"
  using fold_register_stores_hashes [OF assms] by (simp add: registerService_def Let_def)

text \<open>
  A registration that finds the service at the request's version, and every task of the request
  at the hash computed for it, changes no hash, no version and no history row.
\<close>

lemma registerService_noop:
  assumes service: "select_service (rq_serviceId request) d = Some s" "s_version s = rq_version request"
    and hashes: "\<forall>t \<in> set (rq_tasks request).
                   map_option t_code_hash (select_task (tc_id t) d) = Some (calculateCodeHash sha (str t))"
  shows "rs_codeChanges (fst (registerService sha str now request d)) = []"
    and "rs_orphanedTasks (fst (registerService sha str now request d)) = None"
    and "task_code_history (snd (registerService sha str now request d)) = task_code_history d"
    and "map_option t_code_hash (select_task k (snd (registerService sha str now request d)))
           = map_option t_code_hash (select_task k d)"
    and "map_option t_code_version (select_task k (snd (registerService sha str now request d)))
           = map_option t_code_version (select_task k d)"
proof -
  let ?d1 = "upsert_service now (rq_serviceId request) (rq_version request) (rq_baseUrl request) d"
  let ?res = "fold (register_task sha str now (rq_serviceId request) (rq_version request))
                (rq_tasks request) ([], ?d1)"
  have run: "registerService sha str now request d
               = (\<lparr> rs_success = True, rs_codeChanges = fst ?res, rs_orphanedTasks = None \<rparr>, snd ?res)"
    using service by (simp add: registerService_def Let_def)
  have "\<forall>t \<in> set (rq_tasks request).
          map_option t_code_hash (select_task (tc_id t) ?d1) = Some (calculateCodeHash sha (str t))"
    using hashes by simp
  from fold_register_noop [OF this, of now "rq_serviceId request" "rq_version request" "[]"]
  have noop: "fst ?res = []" "task_code_history (snd ?res) = task_code_history d"
    "map_option t_code_hash (select_task k (snd ?res)) = map_option t_code_hash (select_task k d)"
    "map_option t_code_version (select_task k (snd ?res)) = map_option t_code_version (select_task k d)"
    by simp_all
  show "rs_codeChanges (fst (registerService sha str now request d)) = []"
    unfolding run using noop(1) by simp
  show "rs_orphanedTasks (fst (registerService sha str now request d)) = None"
    unfolding run by simp
  show "task_code_history (snd (registerService sha str now request d)) = task_code_history d"
    unfolding run using noop(2) by simp
  show "map_option t_code_hash (select_task k (snd (registerService sha str now request d)))
           = map_option t_code_hash (select_task k d)"
    unfolding run using noop(3) by simp
  show "map_option t_code_version (select_task k (snd (registerService sha str now request d)))
           = map_option t_code_version (select_task k d)"
    unfolding run using noop(4) by simp
qed


text \<open>The first registration of the example service stores task \<open>B\<close> at version 1.\<close>

lemma example_first_registration:
  "map_option t_code_version
     (select_task ''B'' (snd (registerService example_digest example_stringify 1
                                example_request empty_db))) = Some 1"
  by (simp add: registerService_def register_task_def upsert_task_def upsert_service_def
        select_service_def select_task_def example_request_def example_task_config_def
        example_digest_def example_stringify_def empty_db_def calculateCodeHash_def
        record_code_history_def nullish_def Let_def)


text \<open>
  The request that lists \<open>A\<close> twice, registered on an empty database and then once more.
\<close>

lemma duplicate_first_registration:
  "snd (registerService example_digest example_stringify 1 duplicate_request empty_db)
     = empty_db
         \<lparr> services := [\<lparr> s_id = ''svc'', s_version = ''1.0.0'', s_base_url = ''http://svc'',
                          s_registered_at = 1, s_last_heartbeat = Some 1, s_status = Active \<rparr>],
           tasks := [\<lparr> t_id = ''A'', t_service_id = ''svc'',
                       t_code_hash = rev ''id=A,retries'', t_code_version = 2,
                       t_allowed_next = [], t_timeout_seconds = 300, t_retries = 5,
                       t_retry_backoff = Exponential, t_retry_delay_ms = 1000,
                       t_max_retry_delay_ms = 86400000, t_heartbeat_interval_ms = 60000,
                       t_concurrency = 0, t_priority = 100, t_idempotency_ttl_seconds = None,
                       t_description = None, t_registered_at = 1, t_updated_at = 1 \<rparr>],
           task_code_history := [\<lparr> h_task_id = ''A'', h_code_version = 2,
                                   h_code_hash = rev ''id=A,retries'',
                                   h_service_version = ''1.0.0'', h_recorded_at = 1 \<rparr>] \<rparr>"
  by (simp add: registerService_def register_task_def upsert_task_def upsert_service_def
        select_service_def select_task_def duplicate_request_def example_task_config_def
        example_digest_def example_stringify_def empty_db_def calculateCodeHash_def
        record_code_history_def nullish_def Let_def)

lemma duplicate_second_registration:
  "map (\<lambda>c. (cc_taskId c, cc_oldVersion c, cc_newVersion c))
     (rs_codeChanges (fst (registerService example_digest example_stringify 2 duplicate_request
        (snd (registerService example_digest example_stringify 1 duplicate_request empty_db)))))
     = [(''A'', 2, 3), (''A'', 3, 4)]"
  "map_option t_code_version
     (select_task ''A'' (snd (registerService example_digest example_stringify 2 duplicate_request
        (snd (registerService example_digest example_stringify 1 duplicate_request empty_db)))))
     = Some 4"
  "map (\<lambda>h. (h_task_id h, h_code_version h))
     (task_code_history (snd (registerService example_digest example_stringify 2 duplicate_request
        (snd (registerService example_digest example_stringify 1 duplicate_request empty_db)))))
     = [(''A'', 2), (''A'', 3)]"
  unfolding duplicate_first_registration
  by (simp_all add: registerService_def register_task_def upsert_task_def upsert_service_def
        select_service_def select_task_def duplicate_request_def example_task_config_def
        example_digest_def example_stringify_def empty_db_def calculateCodeHash_def
        record_code_history_def nullish_def Let_def)

lemma duplicate_first_summary:
  "map_option t_code_version
     (select_task ''A'' (snd (registerService example_digest example_stringify 1
                                duplicate_request empty_db))) = Some 2"
  "map (\<lambda>h. (h_task_id h, h_code_version h))
     (task_code_history (snd (registerService example_digest example_stringify 1
                                duplicate_request empty_db))) = [(''A'', 2)]"
  unfolding duplicate_first_registration
  by (simp_all add: select_task_def empty_db_def)

text \<open>
  C7, as stated: calling \<open>registerService\<close> twice with an identical request leaves every
  code version unchanged, reports no code change and appends no history row. A request
  may list a task id twice, and the loop over its tasks does not check for that. With
  \<open>A\<close> listed under two configurations, the first call leaves \<open>A\<close> at version 2 with
  the hash of the second configuration; the identical second call finds a different
  stored hash at each of the two entries, reports two code changes, takes \<open>A\<close> from
  version 2 to version 4 and appends a history row.
\<close>

theorem reregistration_duplicate_id_counterexample:
  "map_option t_code_version
     (select_task ''A'' (snd (registerService example_digest example_stringify 1
                                duplicate_request empty_db))) = Some 2
   \<and> map (\<lambda>h. (h_task_id h, h_code_version h))
       (task_code_history (snd (registerService example_digest example_stringify 1
                                  duplicate_request empty_db))) = [(''A'', 2)]
   \<and> map (\<lambda>c. (cc_taskId c, cc_oldVersion c, cc_newVersion c))
       (rs_codeChanges (fst (registerService example_digest example_stringify 2 duplicate_request
          (snd (registerService example_digest example_stringify 1 duplicate_request empty_db)))))
       = [(''A'', 2, 3), (''A'', 3, 4)]
   \<and> map_option t_code_version
       (select_task ''A'' (snd (registerService example_digest example_stringify 2 duplicate_request
          (snd (registerService example_digest example_stringify 1 duplicate_request empty_db)))))
       = Some 4
   \<and> map (\<lambda>h. (h_task_id h, h_code_version h))
       (task_code_history (snd (registerService example_digest example_stringify 2 duplicate_request
          (snd (registerService example_digest example_stringify 1 duplicate_request empty_db)))))
       = [(''A'', 2), (''A'', 3)]"
  by (intro conjI duplicate_first_summary duplicate_second_registration)

text \<open>
  C7, amended: calling \<open>registerService\<close> twice with an identical request that lists each
  task id once is idempotent on code versioning. \<open>sha\<close> is the SHA-256 hex digest and \<open>str\<close>
  is \<open>JSON.stringify\<close> on a task of the request: both are functions, so the second call
  computes for each task the hash the first call computed and stored. The second call
  reports no code change, appends no row to the code history, and leaves the stored hash
  and the code version of every task as the first call left them. In one pass of the loop
  over the request's tasks, the stored version of the task is 1 when the task was not
  registered before, the stored version plus 1 when the stored hash differs from the
  computed one, and the stored version otherwise.
\<close>

theorem reregistration_keeps_code_versions:
  assumes "distinct (map tc_id (rq_tasks request))"
  shows
    "rs_codeChanges (fst (registerService sha str later request
                            (snd (registerService sha str now request d)))) = []
     \<and> task_code_history (snd (registerService sha str later request
                                  (snd (registerService sha str now request d))))
         = task_code_history (snd (registerService sha str now request d))
     \<and> (\<forall>k. map_option t_code_version
                (select_task k (snd (registerService sha str later request
                                       (snd (registerService sha str now request d)))))
              = map_option t_code_version
                  (select_task k (snd (registerService sha str now request d))))
     \<and> (\<forall>k. map_option t_code_hash
                (select_task k (snd (registerService sha str later request
                                       (snd (registerService sha str now request d)))))
              = map_option t_code_hash
                  (select_task k (snd (registerService sha str now request d))))
     \<and> (\<forall>t \<in> set (rq_tasks request).
            map_option t_code_hash
              (select_task (tc_id t) (snd (registerService sha str now request d)))
            = Some (calculateCodeHash sha (str t)))
     \<and> (\<forall>t acc sid sv.
            map_option t_code_version
              (select_task (tc_id t) (snd (register_task sha str now sid sv t acc)))
            = Some (case select_task (tc_id t) (snd acc) of
                      None \<Rightarrow> 1
                    | Some e \<Rightarrow> if t_code_hash e \<noteq> calculateCodeHash sha (str t)
                                then t_code_version e + 1 else t_code_version e))"
proof -
  let ?first = "snd (registerService sha str now request d)"
  obtain s where service: "select_service (rq_serviceId request) ?first = Some s"
      "s_version s = rq_version request"
    using registerService_service [of request sha str now d] by (elim exE conjE)
  have hashes: "\<forall>t \<in> set (rq_tasks request).
                  map_option t_code_hash (select_task (tc_id t) ?first)
                  = Some (calculateCodeHash sha (str t))"
    using registerService_stores_hashes [OF assms] by blast
  note noop = registerService_noop [where sha = sha and str = str, OF service hashes]
  have step: "\<forall>t acc sid sv.
            map_option t_code_version
              (select_task (tc_id t) (snd (register_task sha str now sid sv t acc)))
            = Some (case select_task (tc_id t) (snd acc) of
                      None \<Rightarrow> 1
                    | Some e \<Rightarrow> if t_code_hash e \<noteq> calculateCodeHash sha (str t)
                                then t_code_version e + 1 else t_code_version e)"
    by (intro allI register_task_version)
  show ?thesis
    by (intro conjI allI noop(1) noop(3) noop(4) noop(5) hashes step)
qed

theorem reregistration_witness:
  "distinct (map tc_id (rq_tasks example_request))
   \<and> rs_codeChanges (fst (registerService example_digest example_stringify 2 example_request
                            (snd (registerService example_digest example_stringify 1
                                    example_request empty_db)))) = []
   \<and> map_option t_code_version
       (select_task ''B'' (snd (registerService example_digest example_stringify 2 example_request
                                  (snd (registerService example_digest example_stringify 1
                                          example_request empty_db)))))
     = Some 1"
proof -
  have ids: "distinct (map tc_id (rq_tasks example_request))"
    by (simp add: example_request_def example_task_config_def)
  note twice = reregistration_keeps_code_versions
                 [OF ids, of example_digest example_stringify 2 1 empty_db]
  from twice have changes:
    "rs_codeChanges (fst (registerService example_digest example_stringify 2 example_request
                            (snd (registerService example_digest example_stringify 1
                                    example_request empty_db)))) = []"
    by (rule conjunct1)
  from twice have
    "\<forall>k. map_option t_code_version
           (select_task k (snd (registerService example_digest example_stringify 2 example_request
                                  (snd (registerService example_digest example_stringify 1
                                          example_request empty_db)))))
         = map_option t_code_version
             (select_task k (snd (registerService example_digest example_stringify 1
                                    example_request empty_db)))"
    by (elim conjE)
  then have version:
    "map_option t_code_version
       (select_task ''B'' (snd (registerService example_digest example_stringify 2 example_request
                                  (snd (registerService example_digest example_stringify 1
                                          example_request empty_db)))))
     = Some 1"
    unfolding example_first_registration [symmetric] by (rule spec)
  show ?thesis
    by (intro conjI ids changes version)
qed

section \<open>The failure mode of a triggered run (C10)\<close>

lemma enqueue_pipeline_runs: "pipeline_runs (snd (enqueue now nid options d)) = pipeline_runs d"
  by (simp add: enqueue_def split: option.split)

lemma queueEntryTasks_pipeline_runs:
  "pipeline_runs (snd (queueEntryTasks now gen k options pipelineRunId taskIds queued d))
     = pipeline_runs d"
proof (induction taskIds arbitrary: k queued d)
  case Nil
  show ?case by simp
next
  case (Cons taskId rest)
  obtain res d' where e: "enqueue now (gen k) (entry_options options pipelineRunId taskId) d = (res, d')"
    by (cases "enqueue now (gen k) (entry_options options pipelineRunId taskId) d")
  from enqueue_pipeline_runs [of now "gen k" "entry_options options pipelineRunId taskId" d] e
  have same: "pipeline_runs d' = pipeline_runs d" by simp
  show ?case
  proof (cases res)
    case (Inl err)
    with e same show ?thesis by simp
  next
    case (Inr queuedTask)
    with e same Cons.IH [of "Suc k" "queued @ [qt_runId queuedTask]" d'] show ?thesis by simp
  qed
qed

text \<open>
  C10. Whenever \<open>triggerPipeline\<close> succeeds on options that carry no \<open>failureMode\<close>, the
  call appends exactly one row to \<open>pipeline_runs\<close>, the row of the returned pipeline run
  id, and its failure mode is \<open>fail-fast\<close>, whatever failure mode the pipeline definition
  holds and whatever the validator accepts: the default of the destructuring has already
  replaced the absent option when \<open>failureMode ?? pipeline.failure_mode\<close> is evaluated.
\<close>

theorem trigger_without_failure_mode_is_fail_fast:
  assumes "tp_failureMode options = None"
    and "triggerPipeline validatePipeline now gen options d = (Inr info, d')"
  shows "\<exists>row. pipeline_runs d' = pipeline_runs d @ [row]
           \<and> pr_id row = pi_pipelineRunId info
           \<and> pr_status row = PipelineRunning
           \<and> pr_failure_mode row = FailFast"
proof -
  from assms(2) obtain pipeline where sel: "select_pipeline (tp_pipelineId options) d = Some pipeline"
    by (cases "select_pipeline (tp_pipelineId options) d") (simp_all add: triggerPipeline_def)
  let ?id = "''prun_'' @ gen 0"
  let ?row = "new_pipeline_run now ?id options (Some FailFast) pipeline"
  let ?d1 = "d\<lparr> pipeline_runs := pipeline_runs d @ [?row] \<rparr>"
  let ?q = "queueEntryTasks now gen 1 options ?id (p_entry_tasks pipeline) [] ?d1"
  from assms sel have valid: "fst (validatePipeline (p_entry_tasks pipeline) d)"
    by (cases "fst (validatePipeline (p_entry_tasks pipeline) d)") (simp_all add: triggerPipeline_def)
  obtain res dq where q: "?q = (res, dq)" by (cases ?q)
  from assms sel valid q obtain queuedTasks where "res = Inr queuedTasks"
    by (cases res) (simp_all add: triggerPipeline_def Let_def)
  with assms sel valid q have out: "d' = dq" "pi_pipelineRunId info = ?id"
    by (auto simp: triggerPipeline_def Let_def)
  from queueEntryTasks_pipeline_runs [of now gen 1 options ?id "p_entry_tasks pipeline" "[]" ?d1] q
  have rows: "pipeline_runs dq = pipeline_runs d @ [?row]" by simp
  have fields: "pr_id ?row = ?id" "pr_status ?row = PipelineRunning" "pr_failure_mode ?row = FailFast"
    by (simp_all add: new_pipeline_run_def nullish_def)
  show ?thesis
  proof (intro exI conjI)
    show "pipeline_runs d' = pipeline_runs d @ [?row]" using out rows by simp
    show "pr_id ?row = pi_pipelineRunId info" using out fields by simp
    show "pr_status ?row = PipelineRunning" by (rule fields)
    show "pr_failure_mode ?row = FailFast" by (rule fields)
  qed
qed

lemma triggerPipeline_queued:
  assumes "select_pipeline (tp_pipelineId options) d = Some pipeline"
    and "fst (validatePipeline (p_entry_tasks pipeline) d)"
    and "queueEntryTasks now gen 1 options (''prun_'' @ gen 0) (p_entry_tasks pipeline) []
           (d\<lparr> pipeline_runs := pipeline_runs d @
                [new_pipeline_run now (''prun_'' @ gen 0) options
                   (case tp_failureMode options of None \<Rightarrow> Some FailFast | Some m \<Rightarrow> Some m)
                   pipeline] \<rparr>) = (Inr queuedTasks, dq)"
  shows "triggerPipeline validatePipeline now gen options d =
           (Inr \<lparr> pi_pipelineRunId = ''prun_'' @ gen 0,
                   pi_pipelineId = tp_pipelineId options,
                   pi_status = PipelineRunning,
                   pi_inputPath = ''runs/'' @ (''prun_'' @ gen 0) @ ''/input.json'',
                   pi_entryTaskIds = p_entry_tasks pipeline,
                   pi_queuedTasks = queuedTasks \<rparr>, dq)"
  using assms by (simp add: triggerPipeline_def Let_def)

lemma queueEntryTasks_single:
  assumes "select_task taskId d = Some task"
  shows "queueEntryTasks now gen k options pipelineRunId [taskId] queued d =
           (Inr (queued @ [''trun_'' @ gen k]),
            d\<lparr> task_runs := task_runs d @
                 [new_task_run now (''trun_'' @ gen k)
                    (entry_options options pipelineRunId taskId) task] \<rparr>)"
proof -
  have "enqueue now (gen k) (entry_options options pipelineRunId taskId) d =
          (Inr \<lparr> qt_runId = ''trun_'' @ gen k,
                 qt_taskId = qo_taskId (entry_options options pipelineRunId taskId),
                 qt_status = Pending,
                 qt_inputPath = input_path_for (qo_pipelineRunId (entry_options options pipelineRunId taskId))
                                  (''trun_'' @ gen k) \<rparr>,
           d\<lparr> task_runs := task_runs d @
                 [new_task_run now (''trun_'' @ gen k)
                    (entry_options options pipelineRunId taskId) task] \<rparr>)"
    using assms by (intro enqueue_no_key) (simp_all add: entry_options_def)
  then show ?thesis by simp
qed

lemma continue_db_trigger:
  "\<exists>info d'. triggerPipeline accepting 7 example_nanoid trigger_default continue_db = (Inr info, d')"
proof -
  have sel: "select_pipeline (tp_pipelineId trigger_default) continue_db =
               Some \<lparr> p_id = ''pipe'', p_name = ''P'', p_entry_tasks = [''A''],
                      p_structure = [(''A'', [])], p_version = ''1.0.0'', p_failure_mode = Continue \<rparr>"
    by (simp add: select_pipeline_def continue_db_def empty_db_def trigger_default_def)
  have task: "select_task ''A'' (continue_db\<lparr> pipeline_runs := rs \<rparr>) = Some (example_task ''A'' [] 0 2)" for rs
    by (simp add: select_task_def continue_db_def empty_db_def)
  let ?p = "\<lparr> p_id = ''pipe'', p_name = ''P'', p_entry_tasks = [''A''],
                p_structure = [(''A'', [])], p_version = ''1.0.0'', p_failure_mode = Continue \<rparr>"
  let ?d1 = "continue_db\<lparr> pipeline_runs := pipeline_runs continue_db @
                [new_pipeline_run 7 (''prun_'' @ example_nanoid 0) trigger_default
                   (case tp_failureMode trigger_default of None \<Rightarrow> Some FailFast | Some m \<Rightarrow> Some m)
                   ?p] \<rparr>"
  have entry: "p_entry_tasks ?p = [''A'']" by simp
  have valid: "fst (accepting (p_entry_tasks ?p) continue_db)"
    by (simp add: accepting_def)
  have queued: "queueEntryTasks 7 example_nanoid 1 trigger_default (''prun_'' @ example_nanoid 0)
                  (p_entry_tasks ?p) [] ?d1 =
                (Inr ([] @ [''trun_'' @ example_nanoid 1]),
                 ?d1\<lparr> task_runs := task_runs ?d1 @
                    [new_task_run 7 (''trun_'' @ example_nanoid 1)
                       (entry_options trigger_default (''prun_'' @ example_nanoid 0) ''A'')
                       (example_task ''A'' [] 0 2)] \<rparr>)"
    unfolding entry by (rule queueEntryTasks_single [OF task])
  from triggerPipeline_queued [where gen = example_nanoid and now = 7 and validatePipeline = accepting,
         OF sel valid queued]
  show ?thesis by (intro exI)
qed

theorem trigger_without_failure_mode_witness:
  "map p_failure_mode (pipelines continue_db) = [Continue]
   \<and> map pr_failure_mode
        (pipeline_runs (snd (triggerPipeline accepting 7 example_nanoid trigger_default continue_db)))
       = [FailFast]"
proof -
  have none: "tp_failureMode trigger_default = None"
    by (simp add: trigger_default_def)
  have empty: "pipeline_runs continue_db = []"
    by (simp add: continue_db_def empty_db_def)
  from continue_db_trigger obtain info d'
    where ok: "triggerPipeline accepting 7 example_nanoid trigger_default continue_db = (Inr info, d')"
    by (elim exE)
  from trigger_without_failure_mode_is_fail_fast [OF none ok]
  obtain row where "pipeline_runs d' = pipeline_runs continue_db @ [row]"
    and "pr_failure_mode row = FailFast"
    by (elim exE conjE)
  then have "map pr_failure_mode (pipeline_runs d') = [FailFast]"
    by (simp add: empty)
  then have "map pr_failure_mode
        (pipeline_runs (snd (triggerPipeline accepting 7 example_nanoid trigger_default continue_db)))
       = [FailFast]"
    by (simp add: ok)
  moreover have "map p_failure_mode (pipelines continue_db) = [Continue]"
    by (simp add: continue_db_def empty_db_def)
  ultimately show ?thesis by simp
qed

end
